theory Spec2Isabelle
  imports Complex_Main "HOL-Library.AList"
begin

chapter \<open>Airline market demand analyzer: embedding and properties\<close>

text \<open>
  Python values are modelled as follows: \<open>int\<close> is HOL's \<open>int\<close>; a \<open>float\<close> is the
  exact number it denotes (\<open>rat\<close> or \<open>real\<close>), so IEEE rounding is abstracted away and
  is mentioned wherever a statement would depend on it; \<open>str\<close> is \<open>string\<close>; an
  exception is the \<open>Inl\<close> branch of a sum. Every effect (the clock, the random number
  generator, the network, the module-level stores) is an explicit argument.
\<close>

section \<open>Rate limiter (\<^verbatim>\<open>app/utils/rate_limiter.py\<close>)\<close>

subsection \<open>Definitions\<close>

record RateLimiter =
  key_prefix :: string
  rl_limit :: int
  rl_window :: int
  scope :: "string option"
  by_ip :: bool
  by_user :: bool
  by_endpoint :: bool

text \<open>
  The parts of a Starlette request the limiter reads. \<open>client\<close> is \<open>None\<close> when
  \<^verbatim>\<open>request.client is None\<close>, otherwise the (possibly missing) host; \<open>forwarded_for\<close> is
  the \<^verbatim>\<open>x-forwarded-for\<close> header when present; \<open>user_id\<close> is \<^verbatim>\<open>str(request.user.id)\<close>
  when the request has a truthy \<^verbatim>\<open>user\<close>.
\<close>

record Request =
  client :: "string option option"
  forwarded_for :: "string option"
  user_id :: "string option"
  url_path :: string

record rate_info =
  info_limit :: int
  info_remaining :: int
  info_reset :: int
  info_count :: int

text \<open>The exception \<^verbatim>\<open>RateLimitExceeded\<close> with its detail and its headers.\<close>

datatype RateLimitExceeded = RateLimitExceeded string "(string \<times> string) list"

text \<open>\<^verbatim>\<open>_rate_limit_store\<close>: key to (count, reset time).\<close>

type_synonym rate_limit_store = "string \<rightharpoonup> (int \<times> rat)"

definition py_isspace :: "char \<Rightarrow> bool" where
  "py_isspace c = (c \<in> set [CHR '' '', CHR 0x09, CHR 0x0A, CHR 0x0B, CHR 0x0C, CHR 0x0D,
                             CHR 0x1C, CHR 0x1D, CHR 0x1E, CHR 0x1F])"

definition py_strip :: "string \<Rightarrow> string" where
  "py_strip s = rev (dropWhile py_isspace (rev (dropWhile py_isspace s)))"

text \<open>\<^verbatim>\<open>int(x)\<close> on a float truncates towards zero.\<close>

definition py_trunc :: "rat \<Rightarrow> int" where
  "py_trunc x = (if 0 \<le> x then \<lfloor>x\<rfloor> else \<lceil>x\<rceil>)"

text \<open>\<^verbatim>\<open>str(n)\<close> for an integer.\<close>

fun digits_of :: "nat \<Rightarrow> string" where
  "digits_of n = (if n < 10 then [char_of (48 + n)] else digits_of (n div 10) @ [char_of (48 + n mod 10)])"

definition py_str_int :: "int \<Rightarrow> string" where
  "py_str_int i = (if i < 0 then CHR ''-'' # digits_of (nat (- i)) else digits_of (nat i))"

text \<open>\<^verbatim>\<open>":".join(parts)\<close>.\<close>

fun py_join :: "string \<Rightarrow> string list \<Rightarrow> string" where
  "py_join sep [] = []"
| "py_join sep [p] = p"
| "py_join sep (p # q # ps) = p @ sep @ py_join sep (q # ps)"

definition truthy_str :: "string option \<Rightarrow> bool" where
  "truthy_str s = (case s of None \<Rightarrow> False | Some t \<Rightarrow> t \<noteq> [])"

definition get_redis_key :: "RateLimiter \<Rightarrow> Request \<Rightarrow> string" where
  "get_redis_key rl request =
     (let parts = [key_prefix rl];
          parts = (if truthy_str (scope rl) then parts @ [the (scope rl)] else parts);
          parts = (if by_ip rl then
                     (let ip = (case client request of
                                  None \<Rightarrow> ''unknown''
                                | Some host \<Rightarrow>
                                    (case forwarded_for request of
                                       Some h \<Rightarrow> py_strip (takeWhile (\<lambda>c. c \<noteq> CHR '','') h)
                                     | None \<Rightarrow> (if truthy_str host then the host else ''unknown'')))
                      in parts @ [''ip:'' @ ip])
                   else parts);
          parts = (case user_id request of
                     Some u \<Rightarrow> (if by_user rl then parts @ [''user:'' @ u] else parts)
                   | None \<Rightarrow> parts);
          parts = (if by_endpoint rl then parts @ [''endpoint:'' @ url_path request] else parts)
      in py_join '':'' parts)"

text \<open>
  \<^verbatim>\<open>_in_memory_rate_limit\<close>. The clock reading \<^verbatim>\<open>time.time()\<close> is the argument
  \<open>current_time\<close>; the store is passed in and returned. The per-key \<^verbatim>\<open>asyncio.Lock\<close>
  only serialises the body and is not modelled.
\<close>

definition in_memory_rate_limit ::
  "RateLimiter \<Rightarrow> rat \<Rightarrow> string \<Rightarrow> rate_limit_store \<Rightarrow> rate_limit_store \<times> rate_info" where
  "in_memory_rate_limit rl current_time key store =
     (let (count, reset_time) =
            (case store key of
               Some (count, reset_time) \<Rightarrow>
                 (if current_time > reset_time then (1, current_time + of_int (rl_window rl))
                  else (count + 1, reset_time))
             | None \<Rightarrow> (1, current_time + of_int (rl_window rl)));
          remaining = max 0 (rl_limit rl - count)
      in (store(key \<mapsto> (count, reset_time)),
          \<lparr>info_limit = rl_limit rl, info_remaining = remaining,
           info_reset = py_trunc (reset_time - current_time), info_count = count\<rparr>))"

text \<open>
  \<^verbatim>\<open>_redis_rate_limit\<close>. The Redis server is outside the repository: the replies of
  \<^verbatim>\<open>INCR\<close> and \<^verbatim>\<open>TTL\<close> are the arguments \<open>current\<close> and \<open>ttl\<close>; the arithmetic of
  the Lua script is the code's.
\<close>

definition redis_rate_limit :: "RateLimiter \<Rightarrow> int \<Rightarrow> int \<Rightarrow> rate_info" where
  "redis_rate_limit rl current ttl =
     (let remaining = max 0 (rl_limit rl - current)
      in \<lparr>info_limit = rl_limit rl, info_remaining = remaining, info_reset = ttl, info_count = current\<rparr>)"

text \<open>
  \<^verbatim>\<open>check_rate_limit\<close>. \<open>use_redis\<close> is \<^verbatim>\<open>settings.USE_REDIS\<close>. The result is the new
  in-memory store and either the raised \<^verbatim>\<open>RateLimitExceeded\<close> or the returned
  \<^verbatim>\<open>rate_info\<close>.
\<close>

definition check_rate_limit ::
  "RateLimiter \<Rightarrow> bool \<Rightarrow> int \<times> int \<Rightarrow> rat \<Rightarrow> Request \<Rightarrow> rate_limit_store
     \<Rightarrow> rate_limit_store \<times> (RateLimitExceeded + rate_info)" where
  "check_rate_limit rl use_redis redis_reply current_time request store =
     (let key = get_redis_key rl request;
          (store', info) =
            (if use_redis then (store, redis_rate_limit rl (fst redis_reply) (snd redis_reply))
             else in_memory_rate_limit rl current_time key store)
      in if info_remaining info < 0 then
           (store', Inl (RateLimitExceeded ''Rate limit exceeded''
              [(''X-RateLimit-Limit'', py_str_int (info_limit info)),
               (''X-RateLimit-Remaining'', ''0''),
               (''X-RateLimit-Reset'', py_str_int (info_reset info)),
               (''Retry-After'', py_str_int (info_reset info))]))
         else (store', Inr info))"

text \<open>The requests of one client: each is checked against the store the previous one left.\<close>

fun check_all ::
  "RateLimiter \<Rightarrow> Request \<Rightarrow> rat list \<Rightarrow> rate_limit_store \<Rightarrow> (RateLimitExceeded + rate_info) list" where
  "check_all rl request [] store = []"
| "check_all rl request (t # ts) store =
     (let (store', r) = check_rate_limit rl False (0, 0) t request store
      in r # check_all rl request ts store')"

definition auth_rate_limiter :: RateLimiter where
  "auth_rate_limiter = \<lparr>key_prefix = ''rl:auth'', rl_limit = 5, rl_window = 60, scope = None,
     by_ip = True, by_user = False, by_endpoint = True\<rparr>"

definition login_request :: Request where
  "login_request = \<lparr>client = Some (Some ''10.0.0.7''), forwarded_for = None, user_id = None,
     url_path = ''/api/v1/auth/login''\<rparr>"

subsection \<open>Properties\<close>

lemma in_memory_remaining_nonneg: "0 \<le> info_remaining (snd (in_memory_rate_limit rl t key store))"
  by (simp add: in_memory_rate_limit_def Let_def split: option.splits prod.splits)

lemma redis_remaining_nonneg: "0 \<le> info_remaining (redis_rate_limit rl current ttl)"
  by (simp add: redis_rate_limit_def Let_def)

lemma check_rate_limit_never_raises:
  "\<exists>info. snd (check_rate_limit rl use_redis reply t request store) = Inr info"
proof (cases use_redis)
  case True
  then show ?thesis
    using redis_remaining_nonneg [of rl "fst reply" "snd reply"]
    by (simp add: check_rate_limit_def Let_def)
next
  case False
  obtain s i where si: "in_memory_rate_limit rl t (get_redis_key rl request) store = (s, i)"
    by (cases "in_memory_rate_limit rl t (get_redis_key rl request) store")
  with in_memory_remaining_nonneg [of rl t "get_redis_key rl request" store]
  have "0 \<le> info_remaining i" by simp
  with False si show ?thesis
    by (simp add: check_rate_limit_def Let_def)
qed

text \<open>
  Claim C4. With limit \<open>N\<close> and \<open>N\<close> requests of one key already counted inside the
  window, the \<open>(N+1)\<close>-th request should take the \<^verbatim>\<open>RateLimitExceeded\<close> path. The
  code clamps \<open>remaining\<close> at zero and then tests \<open>remaining < 0\<close>, so the exception is
  unreachable (\<open>check_rate_limit_never_raises\<close>). Evaluated on the repository's own
  \<^verbatim>\<open>auth_rate_limiter\<close> (limit 5, window 60): the sixth request inside the window is
  returned as within the limit, with count 6 and remaining 0.
\<close>

theorem check_rate_limit_sixth_request_passes:
  "check_all auth_rate_limiter login_request [0, 1, 2, 3, 4, 5] Map.empty ! 5
     = Inr \<lparr>info_limit = 5, info_remaining = 0, info_reset = 55, info_count = 6\<rparr>"
proof -
  have k: "get_redis_key auth_rate_limiter login_request
             = ''rl:auth:ip:10.0.0.7:endpoint:/api/v1/auth/login''"
    by (simp add: get_redis_key_def auth_rate_limiter_def login_request_def truthy_str_def)
  show ?thesis
    by (simp add: check_rate_limit_def in_memory_rate_limit_def Let_def k py_trunc_def
        auth_rate_limiter_def)
qed

section \<open>Python values\<close>

text \<open>
  A float is the exact real it denotes, or one of the three special values. Rounding to
  the nearest double is not modelled, and there is no negative zero; overflow to infinity
  is (\<open>dbl_overflow\<close> is the least magnitude that rounds beyond the largest double).
\<close>

datatype pyfloat = Fin real | PInf | NInf | NaN

text \<open>
  \<open>PObj t s\<close> stands for any object that is not \<^verbatim>\<open>None\<close>, a bool, an int, a float or a
  str and has no numeric conversion (a list, a dict, a \<^verbatim>\<open>datetime\<close>, ...): \<open>t\<close> is its
  truth value and \<open>s\<close> its \<^verbatim>\<open>str()\<close>.
\<close>

datatype pyval = PNone | PBool bool | PInt int | PFloat pyfloat | PStr string | PObj bool string

text \<open>A dict with string keys, in insertion order.\<close>

type_synonym pydict = "(string \<times> pyval) list"

datatype pyexn = ValueError | TypeError | OverflowError | OSError | AttributeError | KeyError
  | NameError | OtherError

definition dbl_overflow :: real where
  "dbl_overflow = 2 ^ 1024 - 2 ^ 970"

definition float_lt0 :: "pyfloat \<Rightarrow> bool" where
  "float_lt0 x = (case x of Fin r \<Rightarrow> r < 0 | NInf \<Rightarrow> True | _ \<Rightarrow> False)"

definition float_abs :: "pyfloat \<Rightarrow> pyfloat" where
  "float_abs x = (case x of Fin r \<Rightarrow> Fin \<bar>r\<bar> | NInf \<Rightarrow> PInf | _ \<Rightarrow> x)"

text \<open>The double nearest to an exact value, as far as its range goes.\<close>

definition to_double :: "real \<Rightarrow> pyfloat" where
  "to_double r = (if dbl_overflow \<le> r then PInf else if r \<le> - dbl_overflow then NInf else Fin r)"

definition truthy :: "pyval \<Rightarrow> bool" where
  "truthy v = (case v of PNone \<Rightarrow> False | PBool b \<Rightarrow> b | PInt i \<Rightarrow> i \<noteq> 0
     | PFloat x \<Rightarrow> x \<noteq> Fin 0 | PStr s \<Rightarrow> s \<noteq> [] | PObj t s \<Rightarrow> t)"

definition is_digit :: "char \<Rightarrow> bool" where
  "is_digit c = (c \<in> set ''0123456789'')"

definition is_alpha :: "char \<Rightarrow> bool" where
  "is_alpha c = (c \<in> set ''abcdefghijklmnopqrstuvwxyzABCDEFGHIJKLMNOPQRSTUVWXYZ'')"

text \<open>\<^verbatim>\<open>s.isalpha()\<close> on ASCII text: non-empty and letters only.\<close>

definition py_isalpha :: "string \<Rightarrow> bool" where
  "py_isalpha s = (s \<noteq> [] \<and> list_all is_alpha s)"

definition upper_char :: "char \<Rightarrow> char" where
  "upper_char c = (case map_of (zip ''abcdefghijklmnopqrstuvwxyz'' ''ABCDEFGHIJKLMNOPQRSTUVWXYZ'') c of
     Some u \<Rightarrow> u | None \<Rightarrow> c)"

definition lower_char :: "char \<Rightarrow> char" where
  "lower_char c = (case map_of (zip ''ABCDEFGHIJKLMNOPQRSTUVWXYZ'' ''abcdefghijklmnopqrstuvwxyz'') c of
     Some l \<Rightarrow> l | None \<Rightarrow> c)"

definition py_upper :: "string \<Rightarrow> string" where
  "py_upper s = map upper_char s"

definition py_lower :: "string \<Rightarrow> string" where
  "py_lower s = map lower_char s"

definition digit_val :: "char \<Rightarrow> nat" where
  "digit_val c = (case map_of (zip ''0123456789'' [0, 1, 2, 3, 4, 5, 6, 7, 8, 9]) c of
     Some d \<Rightarrow> d | None \<Rightarrow> 0)"

definition parse_nat :: "string \<Rightarrow> nat" where
  "parse_nat ds = foldl (\<lambda>a c. 10 * a + digit_val c) 0 ds"

text \<open>
  \<^verbatim>\<open>int(s)\<close> for a string of digits and minus signs (all that the callers pass): an
  optional sign and at least one digit. \<open>max_digits\<close> is
  \<^verbatim>\<open>sys.get_int_max_str_digits()\<close> (4300 since Python 3.11; \<open>None\<close> before that, and zero
  switches the limit off).
\<close>

definition py_int_of_str :: "nat option \<Rightarrow> string \<Rightarrow> pyexn + int" where
  "py_int_of_str max_digits s =
     (let (neg, ds) = (case s of c # cs \<Rightarrow> (if c = CHR ''-'' then (True, cs) else (False, s)) | [] \<Rightarrow> (False, s))
      in if ds = [] \<or> \<not> list_all is_digit ds then Inl ValueError
         else if (case max_digits of Some m \<Rightarrow> 0 < m \<and> m < length ds | None \<Rightarrow> False) then Inl ValueError
         else Inr (if neg then - int (parse_nat ds) else int (parse_nat ds)))"

text \<open>
  \<^verbatim>\<open>float(s)\<close> for a string of digits, dots and minus signs that contains a dot: an
  optional sign, digits, one dot, digits, with a digit on at least one side.
\<close>

definition py_float_of_str :: "string \<Rightarrow> pyexn + pyfloat" where
  "py_float_of_str s =
     (let (neg, body) = (case s of c # cs \<Rightarrow> (if c = CHR ''-'' then (True, cs) else (False, s)) | [] \<Rightarrow> (False, s));
          ip = takeWhile (\<lambda>c. c \<noteq> CHR ''.'') body;
          fp = drop 1 (dropWhile (\<lambda>c. c \<noteq> CHR ''.'') body)
      in if \<not> list_all is_digit ip \<or> \<not> list_all is_digit fp \<or> (ip = [] \<and> fp = [])
            \<or> CHR ''.'' \<notin> set body
         then Inl ValueError
         else (let r = real (parse_nat ip) + real (parse_nat fp) / 10 ^ length fp
               in Inr (to_double (if neg then - r else r))))"

text \<open>\<^verbatim>\<open>float(v)\<close> for a value that is not a string.\<close>

definition py_float :: "pyval \<Rightarrow> pyexn + pyfloat" where
  "py_float v = (case v of
       PBool b \<Rightarrow> Inr (Fin (if b then 1 else 0))
     | PInt i \<Rightarrow> (if dbl_overflow \<le> \<bar>real_of_int i\<bar> then Inl OverflowError else Inr (Fin (real_of_int i)))
     | PFloat x \<Rightarrow> Inr x
     | _ \<Rightarrow> Inl TypeError)"

text \<open>\<^verbatim>\<open>int(v)\<close> for a value that is not a string.\<close>

definition py_int :: "pyval \<Rightarrow> pyexn + int" where
  "py_int v = (case v of
       PBool b \<Rightarrow> Inr (if b then 1 else 0)
     | PInt i \<Rightarrow> Inr i
     | PFloat (Fin r) \<Rightarrow> Inr (if 0 \<le> r then \<lfloor>r\<rfloor> else \<lceil>r\<rceil>)
     | PFloat NaN \<Rightarrow> Inl ValueError
     | PFloat _ \<Rightarrow> Inl OverflowError
     | _ \<Rightarrow> Inl TypeError)"

text \<open>
  What the cleaner takes from outside the repository: \<^verbatim>\<open>datetime.fromtimestamp(x).isoformat()\<close>
  (which depends on the local time zone), \<^verbatim>\<open>dateutil.parser.parse(s).isoformat()\<close>,
  \<^verbatim>\<open>dateutil.parser.isoparse\<close>, the \<^verbatim>\<open>repr\<close> of a finite float and the integer
  string limit. Each may raise. A parsed timestamp is its instant in seconds and whether it
  carries a UTC offset.
\<close>

record pydatetime =
  seconds :: real
  aware :: bool

record pylib =
  fromtimestamp_iso :: "pyval \<Rightarrow> pyexn + string"
  parse_iso :: "string \<Rightarrow> pyexn + string"
  isoparse :: "pyval \<Rightarrow> pyexn + pydatetime"
  float_repr :: "real \<Rightarrow> string"
  int_max_str_digits :: "nat option"

text \<open>
  \<^verbatim>\<open>str(v)\<close>, also what an f-string does with \<^verbatim>\<open>{v}\<close>. For an int with more decimal digits
  than the integer string limit it raises \<^verbatim>\<open>ValueError\<close>.
\<close>

definition py_str :: "pylib \<Rightarrow> pyval \<Rightarrow> pyexn + string" where
  "py_str lib v = (case v of
       PNone \<Rightarrow> Inr ''None''
     | PBool b \<Rightarrow> Inr (if b then ''True'' else ''False'')
     | PInt i \<Rightarrow>
         (if (case int_max_str_digits lib of Some m \<Rightarrow> 0 < m \<and> m < length (digits_of (nat \<bar>i\<bar>)) | None \<Rightarrow> False)
          then Inl ValueError else Inr (py_str_int i))
     | PFloat (Fin r) \<Rightarrow> Inr (float_repr lib r)
     | PFloat PInf \<Rightarrow> Inr ''inf''
     | PFloat NInf \<Rightarrow> Inr ''-inf''
     | PFloat NaN \<Rightarrow> Inr ''nan''
     | PStr s \<Rightarrow> Inr s
     | PObj t s \<Rightarrow> Inr s)"

text \<open>
  A \<^verbatim>\<open>logger.warning\<close> whose message formats the value \<open>v\<close>: it raises what \<^verbatim>\<open>str(v)\<close>
  raises, and otherwise the code goes on to \<open>r\<close>.
\<close>

definition logged :: "pylib \<Rightarrow> pyval \<Rightarrow> 'a \<Rightarrow> pyexn + 'a" where
  "logged lib v r = (case py_str lib v of Inl e \<Rightarrow> Inl e | Inr msg \<Rightarrow> Inr r)"

text \<open>A loop over a list of keys whose body may raise.\<close>

fun for_each :: "('k \<Rightarrow> 's \<Rightarrow> pyexn + 's) \<Rightarrow> 'k list \<Rightarrow> 's \<Rightarrow> pyexn + 's" where
  "for_each f [] s = Inr s"
| "for_each f (k # ks) s = (case f k s of Inl e \<Rightarrow> Inl e | Inr s' \<Rightarrow> for_each f ks s')"

text \<open>\<^verbatim>\<open>except (ValueError, TypeError)\<close>.\<close>

definition caught :: "pyexn \<Rightarrow> bool" where
  "caught e = (e = ValueError \<or> e = TypeError)"

text \<open>\<^verbatim>\<open>flight[field + "_raw"] = raw; del flight[field]\<close>.\<close>

definition quarantine :: "string \<Rightarrow> pyval \<Rightarrow> pydict \<Rightarrow> pydict" where
  "quarantine field raw flight = AList.delete field (AList.update (field @ ''_raw'') raw flight)"

section \<open>Data cleaning (\<^verbatim>\<open>app/services/data_processing.py\<close>, \<^verbatim>\<open>DataCleaner\<close>)\<close>

subsection \<open>Definitions\<close>

definition date_fields :: "string list" where
  "date_fields = [''departure_time'', ''arrival_time'', ''booking_date'', ''created_at'', ''updated_at'']"

definition standardize_date :: "pylib \<Rightarrow> string \<Rightarrow> pydict \<Rightarrow> pyexn + pydict" where
  "standardize_date lib field flight =
     (case map_of flight field of
        None \<Rightarrow> Inr flight
      | Some v \<Rightarrow>
          (if \<not> truthy v then Inr flight
           else (case (case v of
                         PBool b \<Rightarrow> Some (fromtimestamp_iso lib v)
                       | PInt i \<Rightarrow> Some (fromtimestamp_iso lib v)
                       | PFloat x \<Rightarrow> Some (fromtimestamp_iso lib v)
                       | PStr s \<Rightarrow> Some (parse_iso lib s)
                       | _ \<Rightarrow> None) of
                   None \<Rightarrow> Inr flight
                 | Some (Inr txt) \<Rightarrow> Inr (AList.update field (PStr txt) flight)
                 | Some (Inl e) \<Rightarrow> (if caught e then logged lib v (quarantine field v flight) else Inl e))))"

definition standardize_dates :: "pylib \<Rightarrow> pydict \<Rightarrow> pyexn + pydict" where
  "standardize_dates lib flight = for_each (standardize_date lib) date_fields flight"

definition code_fields :: "string list" where
  "code_fields = [''origin'', ''destination'', ''operating_airline'', ''marketing_airline'']"

definition clean_airport_code :: "pylib \<Rightarrow> string \<Rightarrow> pydict \<Rightarrow> pyexn + pydict" where
  "clean_airport_code lib code_field flight =
     (case map_of flight code_field of
        None \<Rightarrow> Inr flight
      | Some v \<Rightarrow>
          (if \<not> truthy v then Inr flight
           else (case py_str lib v of
                   Inl e \<Rightarrow> Inl e
                 | Inr txt \<Rightarrow>
                     (let code = py_upper (py_strip txt)
                      in if \<not> (2 \<le> length code \<and> length code \<le> 4 \<and> py_isalpha code)
                         then Inr (quarantine code_field (PStr code) flight)
                         else Inr (AList.update code_field (PStr code) flight)))))"

definition clean_airport_codes :: "pylib \<Rightarrow> pydict \<Rightarrow> pyexn + pydict" where
  "clean_airport_codes lib flight = for_each (clean_airport_code lib) code_fields flight"

definition numeric_fields :: "string list" where
  "numeric_fields = [''price'', ''base_fare'', ''taxes'', ''fees'', ''available_seats'',
     ''total_seats'', ''flight_duration'', ''distance'', ''baggage_allowance'']"

text \<open>The conversion inside the \<^verbatim>\<open>try\<close> of \<^verbatim>\<open>_clean_numeric_fields\<close>, before the sign test.\<close>

definition convert_numeric :: "pylib \<Rightarrow> pyval \<Rightarrow> pyexn + pyval" where
  "convert_numeric lib v = (case v of
       PStr s \<Rightarrow>
         (let value = filter (\<lambda>c. is_digit c \<or> c \<in> set ''.-'') s
          in if CHR ''.'' \<in> set value
             then (case py_float_of_str value of Inl e \<Rightarrow> Inl e | Inr x \<Rightarrow> Inr (PFloat x))
             else (case py_int_of_str (int_max_str_digits lib) value of Inl e \<Rightarrow> Inl e | Inr i \<Rightarrow> Inr (PInt i)))
     | _ \<Rightarrow> (case py_float v of Inl e \<Rightarrow> Inl e | Inr x \<Rightarrow> Inr (PFloat x)))"

text \<open>\<^verbatim>\<open>flight[field] < 0\<close> for a converted number.\<close>

definition is_negative :: "pyval \<Rightarrow> bool" where
  "is_negative n = (case n of PInt i \<Rightarrow> i < 0 | PFloat x \<Rightarrow> float_lt0 x | _ \<Rightarrow> False)"

text \<open>\<^verbatim>\<open>if flight[field] < 0: flight[field] = abs(flight[field])\<close> on a converted number.\<close>

definition ensure_non_negative :: "pyval \<Rightarrow> pyval" where
  "ensure_non_negative n = (case n of
       PInt i \<Rightarrow> (if i < 0 then PInt \<bar>i\<bar> else n)
     | PFloat x \<Rightarrow> (if float_lt0 x then PFloat (float_abs x) else n)
     | _ \<Rightarrow> n)"

text \<open>
  One field of \<^verbatim>\<open>_clean_numeric_fields\<close>. The warning about a negative value formats the
  converted number inside the \<^verbatim>\<open>try\<close>; if that raised, the handler's own warning would format
  the same number and raise again, so either way the exception leaves the function.
\<close>

definition clean_numeric_field :: "pylib \<Rightarrow> string \<Rightarrow> pydict \<Rightarrow> pyexn + pydict" where
  "clean_numeric_field lib field flight =
     (case map_of flight field of
        None \<Rightarrow> Inr flight
      | Some v \<Rightarrow>
          (if v = PNone then Inr flight
           else (case convert_numeric lib v of
                   Inr n \<Rightarrow>
                     (if is_negative n
                      then logged lib n (AList.update field (ensure_non_negative n) flight)
                      else Inr (AList.update field n flight))
                 | Inl e \<Rightarrow> (if caught e then logged lib v (quarantine field v flight) else Inl e))))"

definition clean_numeric_fields :: "pylib \<Rightarrow> pydict \<Rightarrow> pyexn + pydict" where
  "clean_numeric_fields lib flight = for_each (clean_numeric_field lib) numeric_fields flight"

text \<open>
  \<^verbatim>\<open>_clean_airline_info\<close>. The flight number is handled inside a \<^verbatim>\<open>try\<close>; the
  \<^verbatim>\<open>.upper()\<close> of the airline fields is not, and raises \<^verbatim>\<open>AttributeError\<close> on a value
  that is not a string.
\<close>

definition convert_flight_number :: "pylib \<Rightarrow> pyval \<Rightarrow> pyexn + int" where
  "convert_flight_number lib v = (case v of
       PStr s \<Rightarrow> py_int_of_str (int_max_str_digits lib) (filter is_digit s)
     | _ \<Rightarrow> py_int v)"

definition clean_flight_number :: "pylib \<Rightarrow> pydict \<Rightarrow> pyexn + pydict" where
  "clean_flight_number lib flight =
     (case map_of flight ''flight_number'' of
        None \<Rightarrow> Inr flight
      | Some v \<Rightarrow>
          (if \<not> truthy v then Inr flight
           else (case convert_flight_number lib v of
                   Inr i \<Rightarrow> Inr (AList.update ''flight_number'' (PInt i) flight)
                 | Inl e \<Rightarrow>
                     (if caught e then logged lib v (quarantine ''flight_number'' v flight) else Inl e))))"

definition upper_airline :: "string \<Rightarrow> pydict \<Rightarrow> pyexn + pydict" where
  "upper_airline airline_field flight =
     (case map_of flight airline_field of
        None \<Rightarrow> Inr flight
      | Some v \<Rightarrow>
          (if \<not> truthy v then Inr flight
           else (case v of
                   PStr s \<Rightarrow> Inr (AList.update airline_field (PStr (py_upper s)) flight)
                 | _ \<Rightarrow> Inl AttributeError)))"

definition clean_airline_info :: "pylib \<Rightarrow> pydict \<Rightarrow> pyexn + pydict" where
  "clean_airline_info lib flight =
     (case clean_flight_number lib flight of
        Inl e \<Rightarrow> Inl e
      | Inr flight' \<Rightarrow> for_each upper_airline [''operating_airline'', ''marketing_airline''] flight')"

text \<open>
  \<^verbatim>\<open>'_'.join(part for part in flight_id_parts if part)\<close>: the falsy parts are left out, and
  a part that is kept and is not a string raises \<^verbatim>\<open>TypeError\<close>.
\<close>

fun join_parts :: "pyval list \<Rightarrow> pyexn + string list" where
  "join_parts [] = Inr []"
| "join_parts (p # ps) =
     (if \<not> truthy p then join_parts ps
      else (case p of
              PStr s \<Rightarrow> (case join_parts ps of Inl e \<Rightarrow> Inl e | Inr ss \<Rightarrow> Inr (s # ss))
            | _ \<Rightarrow> Inl TypeError))"

definition dict_get :: "pydict \<Rightarrow> string \<Rightarrow> pyval \<Rightarrow> pyval" where
  "dict_get d k dflt = (case map_of d k of Some v \<Rightarrow> v | None \<Rightarrow> dflt)"

definition add_id :: "pylib \<Rightarrow> pydict \<Rightarrow> pyexn + pydict" where
  "add_id lib flight =
     (if map_of flight ''id'' \<noteq> None then Inr flight
      else (case py_str lib (dict_get flight ''flight_number'' (PStr [])) of
              Inl e \<Rightarrow> Inl e
            | Inr number \<Rightarrow>
                (let flight_id_parts =
                       [dict_get flight ''operating_airline'' (PStr []),
                        PStr number,
                        dict_get flight ''origin'' (PStr []),
                        dict_get flight ''departure_time'' (PStr [])]
                 in (case join_parts flight_id_parts of
                       Inl e \<Rightarrow> Inl e
                     | Inr ss \<Rightarrow> Inr (AList.update ''id'' (PStr (py_join ''_'' ss)) flight)))))"

text \<open>
  The derived duration, in minutes. Subtracting a timestamp with an offset from one without
  raises \<^verbatim>\<open>TypeError\<close>; it and \<^verbatim>\<open>ValueError\<close> are passed over.
\<close>

definition add_duration :: "pylib \<Rightarrow> pydict \<Rightarrow> pyexn + pydict" where
  "add_duration lib flight =
     (if map_of flight ''flight_duration'' = None \<and> map_of flight ''departure_time'' \<noteq> None
         \<and> map_of flight ''arrival_time'' \<noteq> None
      then (case isoparse lib (the (map_of flight ''departure_time'')) of
              Inl e \<Rightarrow> (if caught e then Inr flight else Inl e)
            | Inr dep_time \<Rightarrow>
                (case isoparse lib (the (map_of flight ''arrival_time'')) of
                   Inl e \<Rightarrow> (if caught e then Inr flight else Inl e)
                 | Inr arr_time \<Rightarrow>
                     (if aware dep_time \<noteq> aware arr_time then Inr flight
                      else Inr (AList.update ''flight_duration''
                                  (PFloat (Fin ((seconds arr_time - seconds dep_time) / 60))) flight))))
      else Inr flight)"

definition add_cabin_class :: "pydict \<Rightarrow> pydict" where
  "add_cabin_class flight =
     (case map_of flight ''booking_class'' of
        Some (PStr s) \<Rightarrow>
          (let booking_class = py_upper s
           in if booking_class \<in> set [''F'', ''A'', ''P'']
              then AList.update ''cabin_class'' (PStr ''First'') flight
              else if booking_class \<in> set [''J'', ''C'', ''D'', ''I'', ''Z'']
              then AList.update ''cabin_class'' (PStr ''Business'') flight
              else if booking_class \<in> set [''W'', ''E'', ''Y'', ''B'', ''M'', ''H'', ''Q'', ''K'', ''L'',
                                             ''V'', ''S'', ''N'']
              then AList.update ''cabin_class'' (PStr ''Economy'') flight
              else flight)
      | _ \<Rightarrow> flight)"

definition add_derived_fields :: "pylib \<Rightarrow> pydict \<Rightarrow> pyexn + pydict" where
  "add_derived_fields lib flight =
     (case add_id lib flight of
        Inl e \<Rightarrow> Inl e
      | Inr f1 \<Rightarrow> (case add_duration lib f1 of Inl e \<Rightarrow> Inl e | Inr f2 \<Rightarrow> Inr (add_cabin_class f2)))"

text \<open>The body of the \<^verbatim>\<open>try\<close> in \<^verbatim>\<open>clean_flight_data\<close>: the five steps in order.\<close>

definition clean_record :: "pylib \<Rightarrow> pydict \<Rightarrow> pyexn + pydict" where
  "clean_record lib flight =
     (case standardize_dates lib flight of Inl e \<Rightarrow> Inl e | Inr f1 \<Rightarrow>
      (case clean_airport_codes lib f1 of Inl e \<Rightarrow> Inl e | Inr f2 \<Rightarrow>
       (case clean_numeric_fields lib f2 of Inl e \<Rightarrow> Inl e | Inr f3 \<Rightarrow>
        (case clean_airline_info lib f3 of Inl e \<Rightarrow> Inl e | Inr f4 \<Rightarrow>
         add_derived_fields lib f4))))"

text \<open>
  \<^verbatim>\<open>clean_flight_data\<close>: \<^verbatim>\<open>except Exception: ... continue\<close> leaves the record out of
  \<^verbatim>\<open>cleaned_data\<close>.
\<close>

fun clean_loop :: "pylib \<Rightarrow> pydict list \<Rightarrow> pydict list" where
  "clean_loop lib [] = []"
| "clean_loop lib (flight # rest) =
     (case clean_record lib flight of
        Inr cleaned \<Rightarrow> cleaned # clean_loop lib rest
      | Inl e \<Rightarrow> clean_loop lib rest)"

definition clean_flight_data :: "pylib \<Rightarrow> pydict list \<Rightarrow> pydict list" where
  "clean_flight_data lib flight_data = (if flight_data = [] then [] else clean_loop lib flight_data)"

text \<open>
  A reference library for the examples: the results of \<^verbatim>\<open>dateutil\<close> and
  \<^verbatim>\<open>datetime\<close> on the strings and numbers that occur in them (UTC as the local zone),
  \<^verbatim>\<open>ValueError\<close> elsewhere.
\<close>

definition example_lib :: pylib where
  "example_lib = \<lparr>
     fromtimestamp_iso = (\<lambda>v. if v = PInt 1701388800 then Inr ''2023-12-01T00:00:00'' else Inl ValueError),
     parse_iso = (\<lambda>s. if s \<in> set [''2023-12-01T08:00:00'', ''2023-12-01T09:30:00'', ''2023-12-02T08:00:00'',
                                     ''2023-12-02T18:00:00+10:00'']
                       then Inr s else Inl ValueError),
     isoparse = (\<lambda>v. case map_of [(PStr ''2023-12-01T08:00:00'', \<lparr>seconds = 1701417600, aware = False\<rparr>),
                                    (PStr ''2023-12-01T09:30:00'', \<lparr>seconds = 1701423000, aware = False\<rparr>),
                                    (PStr ''2023-12-02T08:00:00'', \<lparr>seconds = 1701504000, aware = False\<rparr>),
                                    (PStr ''2023-12-02T18:00:00+10:00'', \<lparr>seconds = 1701504000, aware = True\<rparr>)] v of
                       Some d \<Rightarrow> Inr d
                     | None \<Rightarrow> (case v of PStr s \<Rightarrow> Inl ValueError | _ \<Rightarrow> Inl TypeError)),
     float_repr = (\<lambda>r. if r = 249.99 then ''249.99'' else ''0.0''),
     int_max_str_digits = Some 4300\<rparr>"

subsection \<open>Predicates and example records\<close>

text \<open>A canonical numeric value that is not negative: \<^verbatim>\<open>None\<close> (left as it is), an int that is at least zero, or a float that is not below zero (a NaN is not).\<close>

definition not_negative :: "pyval \<Rightarrow> bool" where
  "not_negative v = (case v of PNone \<Rightarrow> True | PInt i \<Rightarrow> 0 \<le> i | PFloat x \<Rightarrow> \<not> float_lt0 x | _ \<Rightarrow> False)"

text \<open>The three records of \<^verbatim>\<open>test_clean_flight_data\<close> in \<^verbatim>\<open>tests/test_data_processing.py\<close>.\<close>

definition raw_flights :: "pydict list" where
  "raw_flights = [
    [(''id'', PStr ''QF400''), (''origin'', PStr ''  syd  ''), (''destination'', PStr ''MEL''),
     (''departure_time'', PStr ''2023-12-01T08:00:00''), (''arrival_time'', PStr ''2023-12-01T09:30:00''),
     (''price'', PStr ''$199.99''), (''available_seats'', PStr ''150''), (''flight_number'', PStr ''QF400''),
     (''booking_class'', PStr ''Y''), (''created_at'', PInt 1701388800)],
    [(''origin'', PStr ''MEL''), (''destination'', PStr ''SYD''),
     (''departure_time'', PStr ''2023-12-02T18:00:00+10:00''), (''price'', PFloat (Fin 249.99)),
     (''available_seats'', PInt 0), (''flight_number'', PStr ''VA800''), (''booking_class'', PStr ''J''),
     (''total_seats'', PInt 200)],
    [(''origin'', PStr ''INVALID''), (''destination'', PStr ''SYD''), (''departure_time'', PStr ''invalid-date''),
     (''price'', PStr ''N/A''), (''flight_number'', PStr ''QF401''), (''booking_class'', PStr ''F'')]]"


text \<open>A record whose arrival precedes its departure.\<close>

definition late_arrival_flight :: pydict where
  "late_arrival_flight =
     [(''origin'', PStr ''SYD''), (''destination'', PStr ''MEL''),
      (''departure_time'', PStr ''2023-12-02T08:00:00''), (''arrival_time'', PStr ''2023-12-01T08:00:00''),
      (''price'', PFloat (Fin 199))]"

text \<open>A record with negative numeric fields.\<close>

definition negative_fields_flight :: pydict where
  "negative_fields_flight =
     [(''price'', PStr ''-$12.50''), (''taxes'', PInt (- 3)), (''fees'', PFloat (Fin (- 2))),
      (''distance'', PNone), (''flight_duration'', PStr ''-90'')]"

subsection \<open>Properties of the cleaner\<close>

lemma for_each_invariant:
  assumes "for_each f ks s = Inr s'" and "P s"
    and "\<And>k t t'. k \<in> set ks \<Longrightarrow> f k t = Inr t' \<Longrightarrow> P t \<Longrightarrow> P t'"
  shows "P s'"
  using assms
proof (induction ks arbitrary: s)
  case Nil
  then show ?case by simp
next
  case (Cons k ks)
  then obtain s1 where s1: "f k s = Inr s1" and rest: "for_each f ks s1 = Inr s'"
    by (auto split: sum.splits)
  have "P s1" using Cons.prems(3) [of k s s1] s1 Cons.prems(2) by simp
  show ?case
    by (rule Cons.IH [OF rest \<open>P s1\<close>]) (use Cons.prems(3) in auto)
qed

lemma map_of_quarantine:
  "map_of (quarantine field raw flight) k =
     (if k = field then None else if k = field @ ''_raw'' then Some raw else map_of flight k)"
  by (simp add: quarantine_def update_conv' delete_conv')

lemma logged_Inr [simp]: "logged lib v r = Inr out \<longleftrightarrow> (\<exists>msg. py_str lib v = Inr msg) \<and> r = out"
  by (auto simp: logged_def split: sum.splits)

lemma float_abs_not_lt0: "\<not> float_lt0 (float_abs x)"
  by (cases x) (simp_all add: float_abs_def float_lt0_def)

lemma ensure_non_negative_num:
  "n = PInt i \<or> n = PFloat x \<Longrightarrow> not_negative (ensure_non_negative n)"
  by (auto simp: ensure_non_negative_def not_negative_def float_abs_not_lt0)

lemma not_is_negative_num:
  "n = PInt i \<or> n = PFloat x \<Longrightarrow> \<not> is_negative n \<Longrightarrow> not_negative n"
  by (auto simp: is_negative_def not_negative_def)

lemma convert_numeric_num:
  "convert_numeric lib v = Inr n \<Longrightarrow> (\<exists>i. n = PInt i) \<or> (\<exists>x. n = PFloat x)"
  by (auto simp: convert_numeric_def Let_def split: pyval.splits sum.splits if_splits)

lemma clean_numeric_field_own:
  assumes "clean_numeric_field lib g fl = Inr out" and "map_of out g = Some v"
  shows "not_negative v"
proof (cases "map_of fl g")
  case None
  with assms show ?thesis by (simp add: clean_numeric_field_def)
next
  case (Some w)
  show ?thesis
  proof (cases "w = PNone")
    case True
    with Some assms show ?thesis by (simp add: clean_numeric_field_def not_negative_def)
  next
    case False
    show ?thesis
    proof (cases "convert_numeric lib w")
      case (Inl e)
      with Some False assms show ?thesis
        by (auto simp: clean_numeric_field_def map_of_quarantine split: if_splits)
    next
      case (Inr n)
      with Some False assms have "(is_negative n \<and> v = ensure_non_negative n) \<or> (\<not> is_negative n \<and> v = n)"
        by (auto simp: clean_numeric_field_def update_conv' split: if_splits)
      with convert_numeric_num [OF Inr] ensure_non_negative_num not_is_negative_num
      show ?thesis by blast
    qed
  qed
qed

lemma clean_numeric_field_frame:
  assumes "clean_numeric_field lib g fl = Inr out" and "k \<noteq> g" and "k \<noteq> g @ ''_raw''"
  shows "map_of out k = map_of fl k"
  using assms
  by (auto simp: clean_numeric_field_def map_of_quarantine update_conv' split: option.splits if_splits sum.splits)

lemma raw_neq: "k @ ''_raw'' \<noteq> k"
  by (induction k) auto

lemma clean_numeric_fields_result:
  assumes "for_each (clean_numeric_field lib) ks fl = Inr out"
    and "\<forall>g \<in> set ks. k \<noteq> g @ ''_raw''"
  shows "(k \<in> set ks \<longrightarrow> (\<forall>v. map_of out k = Some v \<longrightarrow> not_negative v))
       \<and> (k \<notin> set ks \<longrightarrow> map_of out k = map_of fl k)"
  using assms
proof (induction ks arbitrary: fl)
  case Nil
  then show ?case by simp
next
  case (Cons g ks)
  then obtain s1 where s1: "clean_numeric_field lib g fl = Inr s1"
    and rest: "for_each (clean_numeric_field lib) ks s1 = Inr out"
    by (auto split: sum.splits)
  from Cons.prems(2) have raw: "\<forall>g \<in> set ks. k \<noteq> g @ ''_raw''" and kg: "k \<noteq> g @ ''_raw''"
    by simp_all
  note ih = Cons.IH [OF rest raw]
  show ?case
  proof (cases "k \<in> set ks")
    case True
    with ih show ?thesis by simp
  next
    case False
    with ih have eq: "map_of out k = map_of s1 k" by simp
    show ?thesis
    proof (cases "k = g")
      case True
      with eq clean_numeric_field_own [OF s1] show ?thesis by simp
    next
      case ng: False
      with eq clean_numeric_field_frame [OF s1 ng kg] False show ?thesis by simp
    qed
  qed
qed

lemma for_each_frame:
  assumes "for_each f ks s = Inr s'"
    and "\<And>g t t'. g \<in> set ks \<Longrightarrow> f g t = Inr t' \<Longrightarrow> map_of t' k = map_of t k"
  shows "map_of s' k = map_of s k"
  by (rule for_each_invariant [OF assms(1), where P = "\<lambda>t. map_of t k = map_of s k"])
     (use assms(2) in auto)

lemma clean_flight_number_frame:
  assumes "clean_flight_number lib fl = Inr out" and "k \<noteq> ''flight_number''" and "k \<noteq> ''flight_number_raw''"
  shows "map_of out k = map_of fl k"
  using assms
  by (auto simp: clean_flight_number_def map_of_quarantine update_conv' split: option.splits if_splits sum.splits)

lemma upper_airline_frame:
  assumes "upper_airline g fl = Inr out" and "k \<noteq> g"
  shows "map_of out k = map_of fl k"
  using assms
  by (auto simp: upper_airline_def update_conv' split: option.splits if_splits pyval.splits)

lemma clean_airline_info_frame:
  assumes "clean_airline_info lib fl = Inr out"
    and "k \<notin> set [''flight_number'', ''flight_number_raw'', ''operating_airline'', ''marketing_airline'']"
  shows "map_of out k = map_of fl k"
proof -
  from assms(1) obtain f1 where f1: "clean_flight_number lib fl = Inr f1"
    and r: "for_each upper_airline [''operating_airline'', ''marketing_airline''] f1 = Inr out"
    by (auto simp: clean_airline_info_def split: sum.splits)
  have "map_of out k = map_of f1 k"
    by (rule for_each_frame [OF r]) (use assms(2) upper_airline_frame in auto)
  with clean_flight_number_frame [OF f1] assms(2) show ?thesis by simp
qed

lemma add_derived_fields_frame:
  assumes "add_derived_fields lib fl = Inr out"
    and "k \<notin> set [''id'', ''flight_duration'', ''cabin_class'']"
  shows "map_of out k = map_of fl k"
proof -
  from assms(1) obtain f1 f2 where f1: "add_id lib fl = Inr f1" and f2: "add_duration lib f1 = Inr f2"
    and o: "out = add_cabin_class f2"
    by (auto simp: add_derived_fields_def split: sum.splits)
  from f1 assms(2) have "map_of f1 k = map_of fl k"
    by (auto simp: add_id_def Let_def update_conv' split: if_splits sum.splits)
  moreover from f2 assms(2) have "map_of f2 k = map_of f1 k"
    by (auto simp: add_duration_def update_conv' split: if_splits sum.splits)
  moreover from o assms(2) have "map_of out k = map_of f2 k"
    by (auto simp: add_cabin_class_def Let_def update_conv' split: option.splits pyval.splits)
  ultimately show ?thesis by simp
qed

lemma clean_loop_member:
  "out \<in> set (clean_loop lib fs) \<Longrightarrow> \<exists>flight \<in> set fs. clean_record lib flight = Inr out"
  by (induction fs) (auto split: sum.splits)

lemma clean_loop_length:
  "length (clean_loop lib fs) = length (filter (\<lambda>f. \<exists>c. clean_record lib f = Inr c) fs)"
  by (induction fs) (auto split: sum.splits)


lemma numeric_fields_ok: "distinct numeric_fields"
  "\<forall>g \<in> set numeric_fields. \<forall>h \<in> set numeric_fields. h \<noteq> g @ ''_raw''"
  by (simp_all add: numeric_fields_def)

text \<open>The definitions that evaluate the cleaner on a concrete record.\<close>

lemmas cleaner_defs = clean_flight_data_def clean_record_def standardize_dates_def date_fields_def
  standardize_date_def clean_airport_codes_def code_fields_def clean_airport_code_def
  clean_numeric_fields_def numeric_fields_def clean_numeric_field_def convert_numeric_def
  ensure_non_negative_def py_float_def float_lt0_def float_abs_def clean_airline_info_def
  clean_flight_number_def upper_airline_def add_derived_fields_def add_id_def add_duration_def
  add_cabin_class_def dbl_overflow_def py_float_of_str_def py_int_of_str_def parse_nat_def
  digit_val_def is_digit_def to_double_def Let_def truthy_def caught_def quarantine_def
  dict_get_def py_str_def example_lib_def py_upper_def upper_char_def py_strip_def py_isspace_def
  py_isalpha_def is_alpha_def convert_flight_number_def py_int_def logged_def is_negative_def
  py_str_int_def





text \<open>
  An int beyond the integer string limit in a code field makes \<^verbatim>\<open>str()\<close> raise outside
  every inner \<^verbatim>\<open>try\<close>, and the record is dropped too.
\<close>

lemma oversized_int_dropped:
  assumes "int_max_str_digits lib = Some m" and "0 < m" and "m < length (digits_of (nat \<bar>i\<bar>))"
  shows "clean_flight_data lib [[(''origin'', PInt i)]] = []"
proof -
  from assms have "i \<noteq> 0" by (cases "i = 0") auto
  with assms have "clean_airport_codes lib [(''origin'', PInt i)] = Inl ValueError"
    by (simp add: clean_airport_codes_def code_fields_def clean_airport_code_def truthy_def py_str_def)
  moreover have "standardize_dates lib [(''origin'', PInt i)] = Inr [(''origin'', PInt i)]"
    by (simp add: standardize_dates_def date_fields_def standardize_date_def)
  ultimately show ?thesis by (simp add: clean_flight_data_def clean_record_def)
qed

text \<open>The three records of the repository's test are all kept.\<close>

lemma test_records_kept: "length (clean_flight_data example_lib raw_flights) = 3"
  by (simp add: raw_flights_def cleaner_defs update_conv')

text \<open>
  The sign test of \<^verbatim>\<open>_clean_numeric_fields\<close>: after it every one of the nine numeric fields
  that is present is not negative, \<^verbatim>\<open>flight_duration\<close> among them; and in a record that
  \<^verbatim>\<open>clean_flight_data\<close> returns, the eight fields that no later step writes are still so.
\<close>

lemma numeric_fields_not_negative:
  assumes "clean_numeric_fields lib flight = Inr cleaned" and "f \<in> set numeric_fields"
    and "map_of cleaned f = Some v"
  shows "not_negative v"
proof -
  from numeric_fields_ok(2) assms(2) have "\<forall>g \<in> set numeric_fields. f \<noteq> g @ ''_raw''" by blast
  from clean_numeric_fields_result [OF assms(1) [unfolded clean_numeric_fields_def] this] assms(2,3)
  show ?thesis by simp
qed

lemma returned_numeric_fields_not_negative:
  assumes "out \<in> set (clean_flight_data lib flight_data)" and "f \<in> set numeric_fields"
    and "f \<noteq> ''flight_duration''" and "map_of out f = Some v"
  shows "not_negative v"
proof -
  from assms(1) have "out \<in> set (clean_loop lib flight_data)"
    by (simp add: clean_flight_data_def split: if_splits)
  from clean_loop_member [OF this] obtain r where "clean_record lib r = Inr out" by blast
  then obtain f2 f3 f4 where f3: "clean_numeric_fields lib f2 = Inr f3"
    and f4: "clean_airline_info lib f3 = Inr f4" and f5: "add_derived_fields lib f4 = Inr out"
    by (auto simp: clean_record_def split: sum.splits)
  from assms(2,3) have k: "f \<notin> set [''flight_number'', ''flight_number_raw'', ''operating_airline'', ''marketing_airline'']"
    "f \<notin> set [''id'', ''flight_duration'', ''cabin_class'']"
    by (auto simp: numeric_fields_def)
  have "map_of out f = map_of f3 f"
    using add_derived_fields_frame [OF f5 k(2)] clean_airline_info_frame [OF f4 k(1)] by simp
  with numeric_fields_not_negative [OF f3 assms(2)] assms(4) show ?thesis by simp
qed

text \<open>A negative value that is supplied is stored as its absolute value, a duration too.\<close>

lemma negative_values_made_positive:
  "clean_numeric_fields example_lib negative_fields_flight
     = Inr [(''price'', PFloat (Fin 12.5)), (''taxes'', PFloat (Fin 3)), (''fees'', PFloat (Fin 2)),
            (''distance'', PNone), (''flight_duration'', PInt 90)]"
  by (simp add: negative_fields_flight_def cleaner_defs)

text \<open>
  Claim C8. Every canonical numeric field of an output record should be non-negative, and
  \<^verbatim>\<open>flight_duration\<close> is one of them. \<^verbatim>\<open>_add_derived_fields\<close> runs after the sign test and
  stores arrival minus departure as it is: for a record whose arrival precedes its departure
  by a day, \<^verbatim>\<open>clean_flight_data\<close> returns \<^verbatim>\<open>flight_duration\<close> \<open>= -1440\<close> minutes.
\<close>

theorem derived_duration_negative:
  "map (\<lambda>r. map_of r ''flight_duration'') (clean_flight_data example_lib [late_arrival_flight])
     = [Some (PFloat (Fin (- 1440)))]
   \<and> ''flight_duration'' \<in> set numeric_fields
   \<and> \<not> not_negative (PFloat (Fin (- 1440)))"
  by (simp add: late_arrival_flight_def cleaner_defs not_negative_def update_conv')

section \<open>Price anomalies (\<^verbatim>\<open>app/services/data_processing.py\<close>, \<^verbatim>\<open>DataProcessor\<close>)\<close>

subsection \<open>Definitions\<close>

text \<open>
  \<^verbatim>\<open>detect_price_anomalies\<close> hands the records to pandas, which is outside the repository.
  The model follows the documented behaviour of the calls the code makes, in exact
  arithmetic: a frame has one row per record and a missing key is NaN; \<^verbatim>\<open>sort_values\<close> is
  ascending with missing timestamps last (modelled as a stable sort, where pandas' default
  quicksort leaves the order of equal timestamps open); \<^verbatim>\<open>rolling(window, min_periods=1)\<close>
  looks at the last \<open>window\<close> rows up to and including the current one and ignores NaN;
  \<^verbatim>\<open>mean\<close> needs one observation and \<^verbatim>\<open>std\<close> (the sample deviation) two, else they are
  NaN. A NaN is \<open>None\<close> in a price column. \<^verbatim>\<open>pd.to_datetime\<close> is the parameter
  \<open>to_datetime\<close>: it gives the instant of a cell (\<open>None\<close> for a missing one) or raises.
\<close>

text \<open>
  A cell of the price column: a number, NaN, or a value that makes the column non-numeric,
  on which \<^verbatim>\<open>rolling\<close> raises. Strings, bools, infinite floats and other objects are
  taken to be of the last kind.
\<close>

definition price_cell :: "pyval option \<Rightarrow> real option option" where
  "price_cell c = (case c of
       None \<Rightarrow> Some None
     | Some PNone \<Rightarrow> Some None
     | Some (PFloat NaN) \<Rightarrow> Some None
     | Some (PInt i) \<Rightarrow> Some (Some (real_of_int i))
     | Some (PFloat (Fin x)) \<Rightarrow> Some (Some x)
     | Some _ \<Rightarrow> None)"

text \<open>The observations of the window that ends at row \<open>i\<close>.\<close>

definition window_obs :: "nat \<Rightarrow> real option list \<Rightarrow> nat \<Rightarrow> real list" where
  "window_obs w col i = List.map_filter (\<lambda>c. c) (take (min w (Suc i)) (drop (Suc i - w) col))"

definition rolling_mean :: "nat \<Rightarrow> real option list \<Rightarrow> nat \<Rightarrow> real option" where
  "rolling_mean w col i =
     (let obs = window_obs w col i
      in if obs = [] then None else Some (sum_list obs / real (length obs)))"

definition rolling_var :: "nat \<Rightarrow> real option list \<Rightarrow> nat \<Rightarrow> real option" where
  "rolling_var w col i =
     (let obs = window_obs w col i
      in if length obs < 2 then None
         else (let m = sum_list obs / real (length obs)
               in Some (sum_list (map (\<lambda>x. (x - m)\<^sup>2) obs) / real (length obs - 1))))"

definition rolling_std :: "nat \<Rightarrow> real option list \<Rightarrow> nat \<Rightarrow> real option" where
  "rolling_std w col i = map_option sqrt (rolling_var w col i)"

text \<open>\<^verbatim>\<open>(price - roll_mean) / roll_std\<close> on one row, with NaN and division by zero as numpy has them.\<close>

definition zscore :: "real option \<Rightarrow> real option \<Rightarrow> real option \<Rightarrow> pyfloat" where
  "zscore price m s = (case (price, m, s) of
       (Some p, Some mu, Some sd) \<Rightarrow>
         (if sd = 0 then (if p - mu = 0 then NaN else if 0 < p - mu then PInf else NInf)
          else Fin ((p - mu) / sd))
     | _ \<Rightarrow> NaN)"

text \<open>\<^verbatim>\<open>abs(z) > threshold\<close>; a comparison with NaN is false.\<close>

definition exceeds :: "pyfloat \<Rightarrow> real \<Rightarrow> bool" where
  "exceeds z threshold = (case z of Fin v \<Rightarrow> threshold < \<bar>v\<bar> | PInf \<Rightarrow> True | NInf \<Rightarrow> True | NaN \<Rightarrow> False)"

text \<open>
  A row of the result: a record returned as it came (the early exits and the \<^verbatim>\<open>except\<close>
  branch), or the row of a record with its \<^verbatim>\<open>price_zscore\<close> and \<^verbatim>\<open>is_anomaly\<close>.
\<close>

datatype anomaly_row = Unscored pydict | Scored pydict pyfloat bool

definition row_price :: "anomaly_row \<Rightarrow> pyval option" where
  "row_price r = (case r of Unscored d \<Rightarrow> map_of d ''price'' | Scored d z a \<Rightarrow> map_of d ''price'')"

definition price_zscore :: "anomaly_row \<Rightarrow> pyfloat option" where
  "price_zscore r = (case r of Unscored d \<Rightarrow> None | Scored d z a \<Rightarrow> Some z)"

definition is_anomaly :: "anomaly_row \<Rightarrow> bool" where
  "is_anomaly r = (case r of Unscored d \<Rightarrow> False | Scored d z a \<Rightarrow> a)"

text \<open>Collecting a column whose cells may fail.\<close>

fun collect :: "('a \<Rightarrow> 'b option) \<Rightarrow> 'a list \<Rightarrow> 'b list option" where
  "collect f [] = Some []"
| "collect f (x # xs) =
     (case f x of None \<Rightarrow> None
      | Some y \<Rightarrow> (case collect f xs of None \<Rightarrow> None | Some ys \<Rightarrow> Some (y # ys)))"

text \<open>Insertion of a row by its timestamp: ascending, missing timestamps last, stable.\<close>

fun time_le :: "real option \<Rightarrow> real option \<Rightarrow> bool" where
  "time_le (Some a) (Some b) = (a \<le> b)"
| "time_le (Some a) None = True"
| "time_le None (Some b) = False"
| "time_le None None = True"

fun insert_by_time :: "real option \<times> pydict \<Rightarrow> (real option \<times> pydict) list \<Rightarrow> (real option \<times> pydict) list" where
  "insert_by_time x [] = [x]"
| "insert_by_time x (y # ys) =
     (if time_le (fst y) (fst x) then y # insert_by_time x ys else x # y # ys)"

definition sort_values :: "(real option \<times> pydict) list \<Rightarrow> (real option \<times> pydict) list" where
  "sort_values rows = foldl (\<lambda>acc x. insert_by_time x acc) [] rows"

definition score_rows :: "nat \<Rightarrow> real \<Rightarrow> pydict list \<Rightarrow> real option list \<Rightarrow> anomaly_row list" where
  "score_rows w threshold rows col =
     map (\<lambda>i. let z = zscore (col ! i) (rolling_mean w col i) (rolling_std w col i)
               in Scored (rows ! i) z (exceeds z threshold))
         [0..<length rows]"

definition detect_price_anomalies ::
  "(pyval option \<Rightarrow> pyexn + real option) \<Rightarrow> pydict list \<Rightarrow> int \<Rightarrow> real \<Rightarrow> anomaly_row list" where
  "detect_price_anomalies to_datetime flights window threshold =
     (if flights = [] \<or> map_of (hd flights) ''price'' = None then []
      else (case (if list_ex (\<lambda>f. map_of f ''departure_time'' \<noteq> None) flights
                  then (case collect (\<lambda>f. case to_datetime (map_of f ''departure_time'') of
                                             Inl e \<Rightarrow> None | Inr t \<Rightarrow> Some (t, f)) flights of
                          None \<Rightarrow> None
                        | Some rows \<Rightarrow> Some (map snd (sort_values rows)))
                  else Some flights) of
              None \<Rightarrow> map Unscored flights
            | Some rows \<Rightarrow>
                (case collect (\<lambda>f. price_cell (map_of f ''price'')) rows of
                   None \<Rightarrow> map Unscored flights
                 | Some col \<Rightarrow>
                     (if window < 1 then map Unscored flights
                      else score_rows (nat window) threshold rows col))))"

text \<open>
  The records of \<^verbatim>\<open>test_detect_price_anomalies\<close>: twenty hourly prices 190, ..., 209 and then
  500 at 21:00 and 50 at 22:00, all on 1 December 2023.
\<close>

definition test_flight :: "string \<Rightarrow> int \<Rightarrow> string \<Rightarrow> pydict" where
  "test_flight hour price number =
     [(''departure_time'', PStr (''2023-12-01T'' @ hour @ '':00:00'')),
      (''price'', PInt price), (''origin'', PStr ''SYD''), (''destination'', PStr ''MEL''),
      (''flight_number'', PStr number)]"

definition test_flights :: "pydict list" where
  "test_flights =
     [test_flight ''00'' 190 ''QF400'',
      test_flight ''01'' 191 ''QF401'',
      test_flight ''02'' 192 ''QF402'',
      test_flight ''03'' 193 ''QF403'',
      test_flight ''04'' 194 ''QF404'',
      test_flight ''05'' 195 ''QF400'',
      test_flight ''06'' 196 ''QF401'',
      test_flight ''07'' 197 ''QF402'',
      test_flight ''08'' 198 ''QF403'',
      test_flight ''09'' 199 ''QF404'',
      test_flight ''10'' 200 ''QF400'',
      test_flight ''11'' 201 ''QF401'',
      test_flight ''12'' 202 ''QF402'',
      test_flight ''13'' 203 ''QF403'',
      test_flight ''14'' 204 ''QF404'',
      test_flight ''15'' 205 ''QF400'',
      test_flight ''16'' 206 ''QF401'',
      test_flight ''17'' 207 ''QF402'',
      test_flight ''18'' 208 ''QF403'',
      test_flight ''19'' 209 ''QF404'',
      test_flight ''21'' 500 ''QF999'',
      test_flight ''22'' 50 ''QF888'']"

text \<open>
  \<^verbatim>\<open>pd.to_datetime\<close> on the timestamps of that day, in seconds after midnight; it stands
  for pandas on these strings only and raises on any other cell.
\<close>

definition to_datetime_2023_12_01 :: "pyval option \<Rightarrow> pyexn + real option" where
  "to_datetime_2023_12_01 c = (case c of
       None \<Rightarrow> Inr None
     | Some (PStr s) \<Rightarrow>
         (if length s = 19 \<and> take 11 s = ''2023-12-01T'' \<and> drop 13 s = '':00:00''
             \<and> list_all is_digit (take 2 (drop 11 s))
          then Inr (Some (3600 * real (parse_nat (take 2 (drop 11 s)))))
          else Inl ValueError)
     | Some _ \<Rightarrow> Inl TypeError)"

text \<open>
  The price column of the test records in time order, and the flag without the square root:
  \<open>abs(z) > t\<close> says \<open>(price - mean)\<^sup>2 > t\<^sup>2 * variance\<close>.
\<close>

definition test_prices :: "real option list" where
  "test_prices = map (\<lambda>i. Some (real_of_int i)) [190, 191, 192, 193, 194, 195, 196, 197, 198, 199, 200, 201,
     202, 203, 204, 205, 206, 207, 208, 209, 500, 50]"

definition flagged :: "nat \<Rightarrow> real \<Rightarrow> real option list \<Rightarrow> nat \<Rightarrow> bool" where
  "flagged w t col i = (case (col ! i, rolling_mean w col i, rolling_var w col i) of
       (Some p, Some m, Some v) \<Rightarrow> t\<^sup>2 * v < (p - m)\<^sup>2
     | _ \<Rightarrow> False)"

text \<open>A list whose first record has no price and whose second has one.\<close>

definition unpriced_first :: "pydict list" where
  "unpriced_first =
     [[(''departure_time'', PStr ''2023-12-01T20:00:00''), (''origin'', PStr ''SYD'')],
      test_flight ''21'' 500 ''QF999'']"

subsection \<open>Properties\<close>

lemma exceeds_zscore:
  assumes "0 < v" and "0 \<le> t"
  shows "exceeds (zscore (Some p) (Some m) (Some (sqrt v))) t \<longleftrightarrow> t\<^sup>2 * v < (p - m)\<^sup>2"
proof -
  have sv: "0 < sqrt v" using assms(1) by simp
  have "t < \<bar>(p - m) / sqrt v\<bar> \<longleftrightarrow> t * sqrt v < \<bar>p - m\<bar>"
    using sv by (simp add: pos_less_divide_eq)
  also have "\<dots> \<longleftrightarrow> (t * sqrt v)\<^sup>2 < (p - m)\<^sup>2"
    using assms(2) sv by (metis abs_le_square_iff abs_of_nonneg linorder_not_le mult_nonneg_nonneg less_imp_le)
  also have "(t * sqrt v)\<^sup>2 = t\<^sup>2 * v"
    using assms(1) by (simp add: power_mult_distrib)
  finally show ?thesis using sv by (simp add: exceeds_def zscore_def)
qed

lemma rolling_var_nonneg: "rolling_var w col i = Some v \<Longrightarrow> 0 \<le> v"
  by (auto simp: rolling_var_def Let_def split: if_splits intro!: divide_nonneg_nonneg sum_list_nonneg)

lemma exceeds_iff_flagged:
  assumes "0 \<le> t"
  shows "exceeds (zscore (col ! i) (rolling_mean w col i) (rolling_std w col i)) t \<longleftrightarrow> flagged w t col i"
proof (cases "col ! i")
  case None
  then show ?thesis by (simp add: zscore_def exceeds_def flagged_def)
next
  case p: (Some p)
  show ?thesis
  proof (cases "rolling_mean w col i")
    case None
    with p show ?thesis by (simp add: zscore_def exceeds_def flagged_def)
  next
    case m: (Some m)
    show ?thesis
    proof (cases "rolling_var w col i")
      case None
      with p m show ?thesis by (simp add: zscore_def exceeds_def flagged_def rolling_std_def)
    next
      case (Some v)
      with rolling_var_nonneg have "0 \<le> v" by blast
      show ?thesis
      proof (cases "v = 0")
        case True
        with p m Some show ?thesis
          by (auto simp: zscore_def exceeds_def flagged_def rolling_std_def)
      next
        case False
        with \<open>0 \<le> v\<close> have "0 < v" by simp
        from exceeds_zscore [OF this assms, of p m] p m Some show ?thesis
          by (simp add: flagged_def rolling_std_def)
      qed
    qed
  qed
qed

lemma is_anomaly_score_rows:
  assumes "0 \<le> t"
  shows "map is_anomaly (score_rows w t rows col) = map (flagged w t col) [0..<length rows]"
  using exceeds_iff_flagged [OF assms]
  by (simp add: score_rows_def is_anomaly_def Let_def)

lemma row_price_score_rows:
  "map row_price (score_rows w t rows col) = map (\<lambda>f. map_of f ''price'') rows"
  by (rule nth_equalityI) (simp_all add: score_rows_def row_price_def Let_def)

lemma test_flags: "map (flagged 7 2 test_prices) [0..<22]
  = [False, False, False, False, False, False, False, False, False, False,
     False, False, False, False, False, False, False, False, False, False, True, False]"
  by code_simp

lemma test_times:
  "map (\<lambda>f. to_datetime_2023_12_01 (map_of f ''departure_time'')) test_flights
     = map (\<lambda>h. Inr (Some (3600 * real h))) [0, 1, 2, 3, 4, 5, 6, 7, 8, 9, 10, 11, 12, 13, 14, 15, 16, 17, 18, 19, 21, 22]"
  by (simp add: test_flights_def test_flight_def to_datetime_2023_12_01_def
      parse_nat_def digit_val_def is_digit_def)

lemma test_frame:
  "detect_price_anomalies to_datetime_2023_12_01 test_flights 7 2 = score_rows 7 2 test_flights test_prices"
  using test_times
  by (simp add: detect_price_anomalies_def test_flights_def sort_values_def price_cell_def test_prices_def)
     (simp add: test_flight_def price_cell_def)

text \<open>
  Claim C10. \<^verbatim>\<open>detect_price_anomalies\<close> returns the empty list when the input is empty or its
  first record has no \<^verbatim>\<open>price\<close> key, whatever the later records hold: only the first record
  is looked at.
\<close>

theorem detect_price_anomalies_guard:
  assumes "flights = [] \<or> map_of (hd flights) ''price'' = None"
  shows "detect_price_anomalies to_datetime flights window threshold = []"
  using assms by (auto simp: detect_price_anomalies_def)

text \<open>Witness for C10: the second record has a price, the first has none, and the result is empty.\<close>

theorem detect_price_anomalies_guard_witness:
  "map_of (hd unpriced_first) ''price'' = None
   \<and> map_of (unpriced_first ! 1) ''price'' = Some (PInt 500)
   \<and> detect_price_anomalies to_datetime_2023_12_01 unpriced_first 7 2 = []"
proof -
  have h: "map_of (hd unpriced_first) ''price'' = None"
    by (simp add: unpriced_first_def)
  have "map_of (unpriced_first ! 1) ''price'' = Some (PInt 500)"
    by (simp add: unpriced_first_def test_flight_def)
  with h detect_price_anomalies_guard [of unpriced_first to_datetime_2023_12_01 7 2]
  show ?thesis by simp
qed

text \<open>
  Claim C9. On the series of the repository's own test (twenty prices 190 to 209, then 500
  and 50, hourly), with window 7 and threshold 2, both outliers should be flagged and nothing
  else. The code flags the 500 and not the 50: the window of the 50 still holds the 500,
  which raises the rolling deviation to about 134, so its z-score is about \<open>-1.32\<close>.
\<close>

theorem test_detect_price_anomalies_misses_50:
  "map (\<lambda>r. (row_price r, is_anomaly r))
       (drop 20 (detect_price_anomalies to_datetime_2023_12_01 test_flights 7 2))
     = [(Some (PInt 500), True), (Some (PInt 50), False)]
   \<and> length (filter is_anomaly (detect_price_anomalies to_datetime_2023_12_01 test_flights 7 2)) = 1"
proof -
  let ?rows = "detect_price_anomalies to_datetime_2023_12_01 test_flights 7 2"
  have len: "length test_flights = 22" by (simp add: test_flights_def)
  have flags: "map is_anomaly ?rows
      = [False, False, False, False, False, False, False, False, False, False,
         False, False, False, False, False, False, False, False, False, False, True, False]"
    using is_anomaly_score_rows [of 2 7 test_flights test_prices] test_flags
    by (simp add: test_frame len)
  have prices: "map row_price ?rows = map (\<lambda>f. map_of f ''price'') test_flights"
    by (simp add: test_frame row_price_score_rows)
  have "map (\<lambda>r. (row_price r, is_anomaly r)) (drop 20 ?rows)
      = zip (drop 20 (map row_price ?rows)) (drop 20 (map is_anomaly ?rows))"
    by (simp add: drop_map zip_map_map zip_same_conv_map)
  also have "\<dots> = [(Some (PInt 500), True), (Some (PInt 50), False)]"
    unfolding flags prices by (simp add: test_flights_def test_flight_def)
  finally have first: "map (\<lambda>r. (row_price r, is_anomaly r)) (drop 20 ?rows)
      = [(Some (PInt 500), True), (Some (PInt 50), False)]" .
  have "length (filter is_anomaly ?rows) = length (filter (\<lambda>b. b) (map is_anomaly ?rows))"
    by (simp add: filter_map comp_def)
  also have "\<dots> = 1" unfolding flags by simp
  finally show ?thesis using first by simp
qed

section \<open>Fallback orchestration (\<^verbatim>\<open>app/services/data_service.py\<close>, \<^verbatim>\<open>DataService\<close>)\<close>

subsection \<open>Definitions\<close>

datatype DataSource = AMADEUS | RAPIDAPI | AVIATIONSTACK | MOCK

text \<open>\<^verbatim>\<open>source.name\<close>.\<close>

definition source_name :: "DataSource \<Rightarrow> string" where
  "source_name s = (case s of AMADEUS \<Rightarrow> ''AMADEUS'' | RAPIDAPI \<Rightarrow> ''RAPIDAPI''
     | AVIATIONSTACK \<Rightarrow> ''AVIATIONSTACK'' | MOCK \<Rightarrow> ''MOCK'')"

text \<open>
  What one awaited call \<^verbatim>\<open>func(source, **kwargs)\<close> does: it raises an exception, returns
  \<^verbatim>\<open>None\<close>, or returns a value (which may be empty). The network behind it is outside the
  program, so the outcome of each source is an argument. A source is asked at most once
  where the list of fallbacks names it at most once, as every list in the file does.
\<close>

datatype 'a outcome = Raises | ReturnsNone | Returns 'a

text \<open>
  The dict \<^verbatim>\<open>_with_fallback\<close> returns: \<^verbatim>\<open>data\<close>, \<^verbatim>\<open>source\<close> and, only when a
  fallback source won, \<^verbatim>\<open>"fallback": True\<close> (\<open>None\<close> is the absent key). \<open>warning\<close> and
  \<open>is_mock\<close> are the keys that the handlers of the public operations add.
\<close>

record 'a envelope =
  env_data :: 'a
  env_source :: string
  env_fallback :: "bool option"
  env_warning :: "string option"
  env_is_mock :: "bool option"

text \<open>\<^verbatim>\<open>DataServiceError(message, source, status_code)\<close>.\<close>

datatype DataServiceError = DataServiceError string DataSource int

text \<open>The loop over \<^verbatim>\<open>fallback_sources\<close>; \<open>None\<close> when it ends without a return.\<close>

fun try_fallbacks ::
  "DataSource set \<Rightarrow> (DataSource \<Rightarrow> 'a outcome) \<Rightarrow> DataSource \<Rightarrow> (DataSource \<times> string) list
     \<Rightarrow> 'a envelope option" where
  "try_fallbacks clients func source [] = None"
| "try_fallbacks clients func source ((fallback_source, description) # rest) =
     (if fallback_source \<in> clients \<and> fallback_source \<noteq> source
      then (case func fallback_source of
              Returns result \<Rightarrow>
                Some \<lparr>env_data = result, env_source = source_name fallback_source,
                      env_fallback = Some True, env_warning = None, env_is_mock = None\<rparr>
            | _ \<Rightarrow> try_fallbacks clients func source rest)
      else try_fallbacks clients func source rest)"

text \<open>
  \<^verbatim>\<open>_with_fallback\<close>. \<open>clients\<close> is the set of keys of \<^verbatim>\<open>self.clients\<close>, \<open>func_name\<close> is
  \<^verbatim>\<open>func.__name__\<close>, and \<open>fallback_sources\<close> is \<open>None\<close> for the argument \<^verbatim>\<open>None\<close>.
\<close>

definition with_fallback ::
  "DataSource set \<Rightarrow> string \<Rightarrow> (DataSource \<Rightarrow> 'a outcome) \<Rightarrow> DataSource
     \<Rightarrow> (DataSource \<times> string) list option \<Rightarrow> DataServiceError + 'a envelope" where
  "with_fallback clients func_name func source fallback_sources =
     (case (if source \<in> clients
            then (case func source of
                    Returns result \<Rightarrow>
                      Some \<lparr>env_data = result, env_source = source_name source,
                            env_fallback = None, env_warning = None, env_is_mock = None\<rparr>
                  | _ \<Rightarrow> None)
            else None) of
        Some env \<Rightarrow> Inr env
      | None \<Rightarrow>
          (case (case fallback_sources of
                   None \<Rightarrow> None
                 | Some fs \<Rightarrow> try_fallbacks clients func source fs) of
             Some env \<Rightarrow> Inr env
           | None \<Rightarrow>
               Inl (DataServiceError (''All data sources failed for '' @ func_name) source 503)))"

text \<open>
  The order in which \<^verbatim>\<open>_with_fallback\<close> asks: the primary source if it is configured, then
  the configured fallbacks other than the primary, as listed.
\<close>

definition priority_chain ::
  "DataSource set \<Rightarrow> DataSource \<Rightarrow> (DataSource \<times> string) list option \<Rightarrow> DataSource list" where
  "priority_chain clients source fallback_sources =
     (if source \<in> clients then [source] else [])
     @ filter (\<lambda>s. s \<in> clients \<and> s \<noteq> source)
         (case fallback_sources of None \<Rightarrow> [] | Some fs \<Rightarrow> map fst fs)"

definition succeeded :: "'a outcome \<Rightarrow> bool" where
  "succeeded r = (case r of Returns x \<Rightarrow> True | _ \<Rightarrow> False)"

definition returned :: "'a outcome \<Rightarrow> 'a option" where
  "returned r = (case r of Returns x \<Rightarrow> Some x | _ \<Rightarrow> None)"

text \<open>
  Three sources for the examples: the primary raises, the first fallback returns an empty
  list, the mock source returns data.
\<close>

definition empty_then_data :: "DataSource \<Rightarrow> string list outcome" where
  "empty_then_data s = (case s of AMADEUS \<Rightarrow> Raises | RAPIDAPI \<Rightarrow> Returns []
     | AVIATIONSTACK \<Rightarrow> ReturnsNone | MOCK \<Rightarrow> Returns [''SYD'', ''MEL''])"

definition airports_fallbacks :: "(DataSource \<times> string) list" where
  "airports_fallbacks = [(RAPIDAPI, ''RapidAPI''), (AVIATIONSTACK, ''AviationStack''), (MOCK, ''Mock Data'')]"

subsection \<open>Properties\<close>

lemma try_fallbacks_find:
  "try_fallbacks clients func source fs =
     (case find (\<lambda>s. succeeded (func s)) (filter (\<lambda>s. s \<in> clients \<and> s \<noteq> source) (map fst fs)) of
        None \<Rightarrow> None
      | Some s \<Rightarrow> Some \<lparr>env_data = the (returned (func s)), env_source = source_name s,
                        env_fallback = Some True, env_warning = None, env_is_mock = None\<rparr>)"
proof (induction fs)
  case Nil
  show ?case by simp
next
  case (Cons p fs)
  obtain s d where p: "p = (s, d)" by (cases p)
  show ?case
  proof (cases "s \<in> clients \<and> s \<noteq> source")
    case False
    with Cons p show ?thesis by auto
  next
    case True
    with Cons p show ?thesis
      by (cases "func s") (auto simp: succeeded_def returned_def)
  qed
qed

lemma find_chain_not_source:
  assumes "find P (filter (\<lambda>s. s \<in> clients \<and> s \<noteq> source) xs) = Some s"
  shows "s \<noteq> source"
proof -
  let ?l = "filter (\<lambda>s. s \<in> clients \<and> s \<noteq> source) xs"
  from assms obtain i where "i < length ?l" and "s = ?l ! i"
    unfolding find_Some_iff by blast
  then have "s \<in> set ?l" by (metis nth_mem)
  then show ?thesis by simp
qed


text \<open>
  Claim C2. \<^verbatim>\<open>_with_fallback\<close> asks the sources in priority order (the primary, then the
  configured fallbacks other than it, as listed) and stops at the first whose call returns
  a value other than \<^verbatim>\<open>None\<close>: it moves on when a source raises or returns \<^verbatim>\<open>None\<close>, and
  an empty result ends the chain like any other value. The envelope carries the data and
  the name of that source, and \<^verbatim>\<open>"fallback": True\<close> exactly when that source is not the
  primary one; when no source returns a value, \<^verbatim>\<open>DataServiceError\<close> is raised.
\<close>

theorem with_fallback_first_success:
  "with_fallback clients func_name func source fallback_sources =
     (case find (\<lambda>s. succeeded (func s)) (priority_chain clients source fallback_sources) of
        None \<Rightarrow> Inl (DataServiceError (''All data sources failed for '' @ func_name) source 503)
      | Some s \<Rightarrow> Inr \<lparr>env_data = the (returned (func s)), env_source = source_name s,
                       env_fallback = (if s = source then None else Some True),
                       env_warning = None, env_is_mock = None\<rparr>)"
proof -
  let ?fs = "filter (\<lambda>s. s \<in> clients \<and> s \<noteq> source)
               (case fallback_sources of None \<Rightarrow> [] | Some fs \<Rightarrow> map fst fs)"
  have rest: "(case fallback_sources of None \<Rightarrow> None | Some fs \<Rightarrow> try_fallbacks clients func source fs)
      = (case find (\<lambda>s. succeeded (func s)) ?fs of
           None \<Rightarrow> None
         | Some s \<Rightarrow> Some \<lparr>env_data = the (returned (func s)), env_source = source_name s,
                           env_fallback = (if s = source then None else Some True),
                           env_warning = None, env_is_mock = None\<rparr>)"
  proof (cases "find (\<lambda>s. succeeded (func s)) ?fs")
    case None
    then show ?thesis by (cases fallback_sources) (simp_all add: try_fallbacks_find)
  next
    case (Some s)
    then have "s \<noteq> source" by (rule find_chain_not_source)
    with Some show ?thesis by (cases fallback_sources) (simp_all add: try_fallbacks_find)
  qed
  show ?thesis
  proof (cases "source \<in> clients \<and> succeeded (func source)")
    case True
    then show ?thesis
      by (cases "func source") (simp_all add: with_fallback_def priority_chain_def succeeded_def returned_def)
  next
    case False
    then have "with_fallback clients func_name func source fallback_sources
        = (case (case fallback_sources of None \<Rightarrow> None | Some fs \<Rightarrow> try_fallbacks clients func source fs) of
             Some env \<Rightarrow> Inr env
           | None \<Rightarrow> Inl (DataServiceError (''All data sources failed for '' @ func_name) source 503))"
      by (cases "func source") (auto simp: with_fallback_def succeeded_def)
    moreover from False have "find (\<lambda>s. succeeded (func s)) (priority_chain clients source fallback_sources)
        = find (\<lambda>s. succeeded (func s)) ?fs"
      by (auto simp: priority_chain_def)
    ultimately show ?thesis unfolding rest
      by (cases "find (\<lambda>s. succeeded (func s)) ?fs") simp_all
  qed
qed

text \<open>
  Counterexample to C2 as stated. The primary source raises and the first fallback returns
  an empty list: the chain ends there with the empty data, although the mock source, next
  in the list, has airports to give.
\<close>

theorem with_fallback_stops_at_empty_result:
  "with_fallback {AMADEUS, RAPIDAPI, AVIATIONSTACK, MOCK} ''fetch_airports'' empty_then_data AMADEUS
       (Some airports_fallbacks)
     = Inr \<lparr>env_data = [], env_source = ''RAPIDAPI'', env_fallback = Some True,
            env_warning = None, env_is_mock = None\<rparr>
   \<and> empty_then_data MOCK = Returns [''SYD'', ''MEL'']"
  by (simp add: with_fallback_def empty_then_data_def airports_fallbacks_def source_name_def)

section \<open>Synthetic data (\<^verbatim>\<open>app/services/mock_data_provider.py\<close>, \<^verbatim>\<open>MockDataProvider\<close>)\<close>

subsection \<open>Definitions\<close>

record airport =
  ap_iata :: string
  ap_name :: string
  ap_city :: string
  ap_country :: string
  ap_lat :: real
  ap_lon :: real
  ap_timezone :: string

record airline =
  al_iata :: string
  al_name :: string

record aircraft =
  ac_code :: string
  ac_name :: string
  ac_capacity :: "int \<times> int"

definition AUSTRALIAN_AIRPORTS :: "airport list" where
  "AUSTRALIAN_AIRPORTS =
     [\<lparr>ap_iata = ''SYD'', ap_name = ''Sydney Airport'', ap_city = ''Sydney'', ap_country = ''Australia'',
       ap_lat = -33.9399, ap_lon = 151.1753, ap_timezone = ''Australia/Sydney''\<rparr>,
      \<lparr>ap_iata = ''MEL'', ap_name = ''Melbourne Airport'', ap_city = ''Melbourne'', ap_country = ''Australia'',
       ap_lat = -37.6696, ap_lon = 144.8498, ap_timezone = ''Australia/Melbourne''\<rparr>,
      \<lparr>ap_iata = ''BNE'', ap_name = ''Brisbane Airport'', ap_city = ''Brisbane'', ap_country = ''Australia'',
       ap_lat = -27.3940, ap_lon = 153.1219, ap_timezone = ''Australia/Brisbane''\<rparr>,
      \<lparr>ap_iata = ''PER'', ap_name = ''Perth Airport'', ap_city = ''Perth'', ap_country = ''Australia'',
       ap_lat = -31.9522, ap_lon = 115.8589, ap_timezone = ''Australia/Perth''\<rparr>,
      \<lparr>ap_iata = ''ADL'', ap_name = ''Adelaide Airport'', ap_city = ''Adelaide'', ap_country = ''Australia'',
       ap_lat = -34.9285, ap_lon = 138.6007, ap_timezone = ''Australia/Adelaide''\<rparr>,
      \<lparr>ap_iata = ''CBR'', ap_name = ''Canberra Airport'', ap_city = ''Canberra'', ap_country = ''Australia'',
       ap_lat = -35.3069, ap_lon = 149.1950, ap_timezone = ''Australia/Sydney''\<rparr>,
      \<lparr>ap_iata = ''HBA'', ap_name = ''Hobart Airport'', ap_city = ''Hobart'', ap_country = ''Australia'',
       ap_lat = -42.8361, ap_lon = 147.5103, ap_timezone = ''Australia/Hobart''\<rparr>,
      \<lparr>ap_iata = ''DRW'', ap_name = ''Darwin Airport'', ap_city = ''Darwin'', ap_country = ''Australia'',
       ap_lat = -12.4083, ap_lon = 130.8727, ap_timezone = ''Australia/Darwin''\<rparr>,
      \<lparr>ap_iata = ''CNS'', ap_name = ''Cairns Airport'', ap_city = ''Cairns'', ap_country = ''Australia'',
       ap_lat = -16.8858, ap_lon = 145.7553, ap_timezone = ''Australia/Brisbane''\<rparr>,
      \<lparr>ap_iata = ''OOL'', ap_name = ''Gold Coast Airport'', ap_city = ''Gold Coast'', ap_country = ''Australia'',
       ap_lat = -28.1667, ap_lon = 153.5000, ap_timezone = ''Australia/Brisbane''\<rparr>]"

definition AIRLINES :: "airline list" where
  "AIRLINES =
     [\<lparr>al_iata = ''QF'', al_name = ''Qantas''\<rparr>,
      \<lparr>al_iata = ''VA'', al_name = ''Virgin Australia''\<rparr>,
      \<lparr>al_iata = ''JQ'', al_name = ''Jetstar''\<rparr>,
      \<lparr>al_iata = ''TT'', al_name = ''Tigerair Australia''\<rparr>,
      \<lparr>al_iata = ''NZ'', al_name = ''Air New Zealand''\<rparr>,
      \<lparr>al_iata = ''EY'', al_name = ''Etihad Airways''\<rparr>,
      \<lparr>al_iata = ''SQ'', al_name = ''Singapore Airlines''\<rparr>,
      \<lparr>al_iata = ''CX'', al_name = ''Cathay Pacific''\<rparr>,
      \<lparr>al_iata = ''EK'', al_name = ''Emirates''\<rparr>,
      \<lparr>al_iata = ''LA'', al_name = ''LATAM''\<rparr>]"

definition AIRCRAFT_TYPES :: "aircraft list" where
  "AIRCRAFT_TYPES =
     [\<lparr>ac_code = ''A320'', ac_name = ''Airbus A320'', ac_capacity = (150, 186)\<rparr>,
      \<lparr>ac_code = ''A330'', ac_name = ''Airbus A330'', ac_capacity = (250, 300)\<rparr>,
      \<lparr>ac_code = ''A350'', ac_name = ''Airbus A350'', ac_capacity = (300, 350)\<rparr>,
      \<lparr>ac_code = ''A380'', ac_name = ''Airbus A380'', ac_capacity = (500, 853)\<rparr>,
      \<lparr>ac_code = ''B737'', ac_name = ''Boeing 737'', ac_capacity = (130, 215)\<rparr>,
      \<lparr>ac_code = ''B747'', ac_name = ''Boeing 747'', ac_capacity = (366, 416)\<rparr>,
      \<lparr>ac_code = ''B777'', ac_name = ''Boeing 777'', ac_capacity = (301, 550)\<rparr>,
      \<lparr>ac_code = ''B787'', ac_name = ''Boeing 787'', ac_capacity = (242, 330)\<rparr>]"

text \<open>
  A naive \<^verbatim>\<open>datetime\<close>: the proleptic Gregorian ordinal of its day (1 is 0001-01-01 and
  3652059 is 9999-12-31) and the microsecond within the day. The date arguments of the
  provider are taken to be naive, as those that \<^verbatim>\<open>datetime.utcnow\<close> and
  \<^verbatim>\<open>datetime.strptime\<close> give; the strings of \<^verbatim>\<open>isoformat\<close> and \<^verbatim>\<open>strftime\<close> are kept as the
  datetimes they render.
\<close>

record naive_datetime =
  toordinal :: int
  day_microsecond :: int

definition max_ordinal :: int where
  "max_ordinal = 3652059"

definition valid_datetime :: "naive_datetime \<Rightarrow> bool" where
  "valid_datetime d = (1 \<le> toordinal d \<and> toordinal d \<le> max_ordinal
     \<and> 0 \<le> day_microsecond d \<and> day_microsecond d < 86400000000)"

text \<open>Microseconds since the start of day 0; datetimes compare as these do.\<close>

definition instant :: "naive_datetime \<Rightarrow> int" where
  "instant d = toordinal d * 86400000000 + day_microsecond d"

text \<open>\<^verbatim>\<open>d + timedelta(days=days, microseconds=us)\<close>; out of the calendar it raises \<^verbatim>\<open>OverflowError\<close>.\<close>

definition add_timedelta :: "naive_datetime \<Rightarrow> int \<Rightarrow> int \<Rightarrow> pyexn + naive_datetime" where
  "add_timedelta d days us =
     (let t = instant d + days * 86400000000 + us
      in if 1 \<le> t div 86400000000 \<and> t div 86400000000 \<le> max_ordinal
         then Inr \<lparr>toordinal = t div 86400000000, day_microsecond = t mod 86400000000\<rparr>
         else Inl OverflowError)"

text \<open>\<^verbatim>\<open>d.replace(hour=h, minute=m, second=0, microsecond=0)\<close>.\<close>

definition replace_time :: "naive_datetime \<Rightarrow> int \<Rightarrow> int \<Rightarrow> naive_datetime" where
  "replace_time d h m = \<lparr>toordinal = toordinal d, day_microsecond = (h * 3600 + m * 60) * 1000000\<rparr>"

definition weekday :: "naive_datetime \<Rightarrow> int" where
  "weekday d = (toordinal d + 6) mod 7"

definition hour_of :: "naive_datetime \<Rightarrow> int" where
  "hour_of d = day_microsecond d div 3600000000"

text \<open>
  The module \<^verbatim>\<open>random\<close> is a source \<open>g\<close> of raw draws, read at a position that each call
  advances by one. \<^verbatim>\<open>random()\<close> is a multiple of 2 to the power -53 in \<open>[0, 1)\<close>; the other
  functions are computed from one draw each, so that every value they can return is the
  value for some draw. Floats are exact reals here.
\<close>

definition random01 :: "(nat \<Rightarrow> nat) \<Rightarrow> nat \<Rightarrow> real" where
  "random01 g n = of_int (int (g n) mod 2 ^ 53) / 2 ^ 53"

definition uniform :: "(nat \<Rightarrow> nat) \<Rightarrow> nat \<Rightarrow> real \<Rightarrow> real \<Rightarrow> real" where
  "uniform g n a b = a + (b - a) * random01 g n"

definition randint :: "(nat \<Rightarrow> nat) \<Rightarrow> nat \<Rightarrow> int \<Rightarrow> int \<Rightarrow> int" where
  "randint g n a b = a + int (g n mod nat (b - a + 1))"

definition choice :: "(nat \<Rightarrow> nat) \<Rightarrow> nat \<Rightarrow> 'a list \<Rightarrow> 'a" where
  "choice g n xs = xs ! (g n mod length xs)"

text \<open>\<^verbatim>\<open>random.choices(population, weights=weights, k=1)[0]\<close>: a bisection of the running sums.\<close>

fun running_sums :: "real \<Rightarrow> real list \<Rightarrow> real list" where
  "running_sums acc [] = []"
| "running_sums acc (w # ws) = (acc + w) # running_sums (acc + w) ws"

definition choices :: "(nat \<Rightarrow> nat) \<Rightarrow> nat \<Rightarrow> 'a list \<Rightarrow> real list \<Rightarrow> 'a" where
  "choices g n population weights =
     (let cum_weights = running_sums 0 weights;
          x = random01 g n * last cum_weights
      in population ! length (takeWhile (\<lambda>c. c \<le> x) (butlast cum_weights)))"

text \<open>\<^verbatim>\<open>random.sample(population, k)\<close>: \<open>k\<close> draws without replacement.\<close>

fun sample :: "(nat \<Rightarrow> nat) \<Rightarrow> nat \<Rightarrow> 'a list \<Rightarrow> nat \<Rightarrow> 'a list" where
  "sample g n xs 0 = []"
| "sample g n xs (Suc k) =
     (if xs = [] then []
      else (let i = g n mod length xs
            in xs ! i # sample g (Suc n) (take i xs @ drop (Suc i) xs) k))"

text \<open>\<^verbatim>\<open>int(x)\<close> and \<^verbatim>\<open>round(x, ndigits)\<close> on a float: towards zero, and to the nearest with ties to even.\<close>

definition int_of_float :: "real \<Rightarrow> int" where
  "int_of_float x = (if 0 \<le> x then \<lfloor>x\<rfloor> else \<lceil>x\<rceil>)"

definition round_half_even :: "real \<Rightarrow> int" where
  "round_half_even x =
     (if x - of_int \<lfloor>x\<rfloor> < 1 / 2 then \<lfloor>x\<rfloor>
      else if 1 / 2 < x - of_int \<lfloor>x\<rfloor> then \<lfloor>x\<rfloor> + 1
      else if even \<lfloor>x\<rfloor> then \<lfloor>x\<rfloor> else \<lfloor>x\<rfloor> + 1)"

definition py_round :: "real \<Rightarrow> nat \<Rightarrow> real" where
  "py_round x ndigits = of_int (round_half_even (x * 10 ^ ndigits)) / 10 ^ ndigits"

text \<open>\<^verbatim>\<open>get_airports\<close>.\<close>

definition mock_get_airports :: "airport list" where
  "mock_get_airports = AUSTRALIAN_AIRPORTS"

text \<open>
  \<^verbatim>\<open>next((a for a in airports if a["iata"] == code), None) if code else None\<close>, then a
  random airport where none was found. The result comes with the position of the next draw.
\<close>

definition find_airport :: "string option \<Rightarrow> airport option" where
  "find_airport code = (case code of
       None \<Rightarrow> None
     | Some c \<Rightarrow> (if c = [] then None else find (\<lambda>a. ap_iata a = c) AUSTRALIAN_AIRPORTS))"

definition pick_route ::
  "(nat \<Rightarrow> nat) \<Rightarrow> string option \<Rightarrow> string option \<Rightarrow> airport \<times> airport \<times> nat" where
  "pick_route g origin destination =
     (let (origin_airport, n1) = (case find_airport origin of
              Some a \<Rightarrow> (a, 0)
            | None \<Rightarrow> (choice g 0 AUSTRALIAN_AIRPORTS, 1));
          (dest_airport, n2) = (case find_airport destination of
              Some a \<Rightarrow> (a, n1)
            | None \<Rightarrow> (choice g n1 (filter (\<lambda>a. ap_iata a \<noteq> ap_iata origin_airport) AUSTRALIAN_AIRPORTS),
                        Suc n1))
      in (origin_airport, dest_airport, n2))"

text \<open>A generated flight; \<^verbatim>\<open>uuid4\<close> is one more draw, kept as a number.\<close>

record flight =
  f_id :: nat
  f_flight_number :: string
  f_airline :: airline
  f_origin :: airport
  f_destination :: airport
  f_departure_time :: naive_datetime
  f_arrival_time :: naive_datetime
  f_duration :: int
  f_aircraft :: aircraft
  f_capacity :: int
  f_booked_seats :: int
  f_available_seats :: int
  f_load_factor :: real
  f_price :: real
  f_currency :: string
  f_status :: string
  f_stops :: int
  f_data_source :: string

text \<open>The body of the inner loop of \<^verbatim>\<open>get_flights\<close>: fifteen draws from position \<open>n\<close>.\<close>

definition make_flight ::
  "(nat \<Rightarrow> nat) \<Rightarrow> nat \<Rightarrow> airport \<Rightarrow> airport \<Rightarrow> naive_datetime \<Rightarrow> pyexn + flight" where
  "make_flight g n origin_airport dest_airport current_date =
     (let departure_time = replace_time current_date (randint g n 6 22) (choice g (n + 1) [0, 15, 30, 45]);
          duration_hours = randint g (n + 2) 1 6;
          duration_minutes = duration_hours * 60 + randint g (n + 3) 0 59
      in case add_timedelta departure_time 0 (duration_minutes * 60000000) of
           Inl e \<Rightarrow> Inl e
         | Inr arrival_time \<Rightarrow>
             (let airline = choice g (n + 4) AIRLINES;
                  aircraft = choice g (n + 5) AIRCRAFT_TYPES;
                  capacity = randint g (n + 6) (fst (ac_capacity aircraft)) (snd (ac_capacity aircraft));
                  booked = randint g (n + 7) (int_of_float (of_int capacity * 0.5))
                                            (int_of_float (of_int capacity * 0.9));
                  base_price = uniform g (n + 8) 100 300;
                  distance = uniform g (n + 9) 500 4000;
                  price = py_round (base_price + distance * 0.1 + uniform g (n + 10) (-50) 100) 2
              in Inr \<lparr>f_id = g (n + 11),
                      f_flight_number = al_iata airline @ py_str_int (randint g (n + 12) 100 9999),
                      f_airline = airline,
                      f_origin = origin_airport,
                      f_destination = dest_airport,
                      f_departure_time = departure_time,
                      f_arrival_time = arrival_time,
                      f_duration = duration_minutes,
                      f_aircraft = aircraft,
                      f_capacity = capacity,
                      f_booked_seats = booked,
                      f_available_seats = capacity - booked,
                      f_load_factor = py_round (of_int booked / of_int capacity * 100) 1,
                      f_price = price,
                      f_currency = ''AUD'',
                      f_status = choices g (n + 13) [''scheduled'', ''delayed'', ''cancelled''] [0.9, 0.08, 0.02],
                      f_stops = choices g (n + 14) [0, 1, 2] [0.7, 0.25, 0.05],
                      f_data_source = ''mock''\<rparr>))"

text \<open>
  \<^verbatim>\<open>for _ in range(random.randint(1, 5))\<close> with its \<^verbatim>\<open>break\<close>: \<open>k\<close> rounds are left, and the
  result is the list with the position of the next draw.
\<close>

fun day_flights ::
  "(nat \<Rightarrow> nat) \<Rightarrow> airport \<Rightarrow> airport \<Rightarrow> naive_datetime \<Rightarrow> int \<Rightarrow> nat \<Rightarrow> nat \<Rightarrow> flight list
     \<Rightarrow> pyexn + flight list \<times> nat" where
  "day_flights g origin_airport dest_airport current_date limit 0 n flights = Inr (flights, n)"
| "day_flights g origin_airport dest_airport current_date limit (Suc k) n flights =
     (if limit \<le> int (length flights) then Inr (flights, n)
      else (case make_flight g n origin_airport dest_airport current_date of
              Inl e \<Rightarrow> Inl e
            | Inr flight_data \<Rightarrow>
                day_flights g origin_airport dest_airport current_date limit k (n + 15)
                  (flights @ [flight_data])))"

text \<open>\<^verbatim>\<open>while current_date <= date_to and len(flights) < limit\<close>.\<close>

function flights_loop ::
  "(nat \<Rightarrow> nat) \<Rightarrow> airport \<Rightarrow> airport \<Rightarrow> naive_datetime \<Rightarrow> int \<Rightarrow> naive_datetime \<Rightarrow> nat \<Rightarrow> flight list
     \<Rightarrow> pyexn + flight list" where
  "flights_loop g origin_airport dest_airport date_to limit current_date n flights =
     (if instant current_date \<le> instant date_to \<and> int (length flights) < limit
      then (case day_flights g origin_airport dest_airport current_date limit
                   (nat (randint g n 1 5)) (Suc n) flights of
              Inl e \<Rightarrow> Inl e
            | Inr (flights', n') \<Rightarrow>
                (case add_timedelta current_date 1 0 of
                   Inl e \<Rightarrow> Inl e
                 | Inr next_date \<Rightarrow>
                     flights_loop g origin_airport dest_airport date_to limit next_date n' flights'))
      else Inr flights)"
  by pat_completeness auto

termination flights_loop
proof (relation "measure (\<lambda>(g, origin_airport, dest_airport, date_to, limit, current_date, n, flights).
                             nat (instant date_to - instant current_date + 1))")
  show "wf (measure (\<lambda>(g, origin_airport, dest_airport, date_to, limit, current_date, n, flights).
                       nat (instant date_to - instant current_date + 1)))"
    by simp
next
  fix g :: "nat \<Rightarrow> nat" and origin_airport dest_airport :: airport and date_to current_date next_date :: naive_datetime
    and limit :: int and n :: nat and flights :: "flight list" and x and flights' n'
  assume le: "instant current_date \<le> instant date_to \<and> int (length flights) < limit"
    and "add_timedelta current_date 1 0 = Inr next_date"
  then have "instant next_date = instant current_date + 86400000000"
    by (auto simp: add_timedelta_def instant_def Let_def split: if_splits)
  with le show "((g, origin_airport, dest_airport, date_to, limit, next_date, n', flights'),
                 (g, origin_airport, dest_airport, date_to, limit, current_date, n, flights))
      \<in> measure (\<lambda>(g, origin_airport, dest_airport, date_to, limit, current_date, n, flights).
                    nat (instant date_to - instant current_date + 1))"
    by simp
qed

text \<open>
  \<^verbatim>\<open>get_flights\<close>. \<open>utcnow\<close> is the reading of the clock; a \<^verbatim>\<open>datetime\<close> is truthy, so
  \<^verbatim>\<open>date_from or today\<close> is \<^verbatim>\<open>today\<close> only for \<^verbatim>\<open>None\<close>.
\<close>

definition get_flights ::
  "(nat \<Rightarrow> nat) \<Rightarrow> naive_datetime \<Rightarrow> string option \<Rightarrow> string option
     \<Rightarrow> naive_datetime option \<Rightarrow> naive_datetime option \<Rightarrow> int \<Rightarrow> pyexn + flight list" where
  "get_flights g utcnow origin destination date_from date_to limit =
     (let today = replace_time utcnow 0 0;
          date_from' = (case date_from of Some d \<Rightarrow> d | None \<Rightarrow> today)
      in case (case date_to of Some d \<Rightarrow> Inr d | None \<Rightarrow> add_timedelta today 30 0) of
           Inl e \<Rightarrow> Inl e
         | Inr date_to' \<Rightarrow>
             (let (origin_airport, dest_airport, n) = pick_route g origin destination
              in flights_loop g origin_airport dest_airport date_to' limit date_from' n []))"

text \<open>A point of the market series.\<close>

record market_point =
  m_date :: naive_datetime
  m_origin :: string
  m_destination :: string
  m_search_volume :: int
  m_booking_count :: int
  m_conversion_rate :: real
  m_average_price :: real
  m_min_price :: real
  m_max_price :: real
  m_load_factor :: real
  m_data_source :: string

text \<open>The body of the loop of \<^verbatim>\<open>get_market_data\<close>: seven draws from position \<open>n\<close>.\<close>

definition market_point_of ::
  "(nat \<Rightarrow> nat) \<Rightarrow> nat \<Rightarrow> airport \<Rightarrow> airport \<Rightarrow> naive_datetime \<Rightarrow> market_point" where
  "market_point_of g n origin_airport dest_airport date =
     (let is_weekend = (5 \<le> weekday date);
          base_demand = uniform g n 50 200;
          weekend_boost = (if is_weekend then 1.5 else 1.0);
          search_volume0 = int_of_float (base_demand * weekend_boost * uniform g (n + 1) 0.8 1.2);
          booking_count = int_of_float (of_int search_volume0 * uniform g (n + 2) 0.1 0.4);
          avg_price = py_round (uniform g (n + 3) 150 500 * (if is_weekend then 1.2 else 1.0)) 2;
          time_of_day = hour_of date;
          time_factor = (if (7 \<le> time_of_day \<and> time_of_day < 10) \<or> (17 \<le> time_of_day \<and> time_of_day < 21)
                         then 1.3 else 1.0);
          search_volume = int_of_float (of_int search_volume0 * time_factor)
      in \<lparr>m_date = date,
          m_origin = ap_iata origin_airport,
          m_destination = ap_iata dest_airport,
          m_search_volume = search_volume,
          m_booking_count = booking_count,
          m_conversion_rate = (if 0 < search_volume
                               then py_round (of_int booking_count / of_int search_volume * 100) 2 else 0),
          m_average_price = avg_price,
          m_min_price = py_round (avg_price * uniform g (n + 4) 0.7 0.95) 2,
          m_max_price = py_round (avg_price * uniform g (n + 5) 1.05 1.3) 2,
          m_load_factor = py_round (uniform g (n + 6) 60 95) 1,
          m_data_source = ''mock''\<rparr>)"

text \<open>\<^verbatim>\<open>for day in range(days)\<close>, over the list of the days that are left.\<close>

fun market_loop ::
  "(nat \<Rightarrow> nat) \<Rightarrow> airport \<Rightarrow> airport \<Rightarrow> naive_datetime \<Rightarrow> nat list \<Rightarrow> nat \<Rightarrow> pyexn + market_point list" where
  "market_loop g origin_airport dest_airport today [] n = Inr []"
| "market_loop g origin_airport dest_airport today (day # rest) n =
     (case add_timedelta today (- int day) 0 of
        Inl e \<Rightarrow> Inl e
      | Inr date \<Rightarrow>
          (case market_loop g origin_airport dest_airport today rest (n + 7) of
             Inl e \<Rightarrow> Inl e
           | Inr points \<Rightarrow> Inr (market_point_of g n origin_airport dest_airport date # points)))"

text \<open>
  \<^verbatim>\<open>get_market_data\<close>. The sort is by the \<^verbatim>\<open>isoformat\<close> string of the date, which orders
  these midnights as the dates themselves.
\<close>

definition get_market_data ::
  "(nat \<Rightarrow> nat) \<Rightarrow> naive_datetime \<Rightarrow> string option \<Rightarrow> string option \<Rightarrow> int
     \<Rightarrow> pyexn + market_point list" where
  "get_market_data g utcnow origin destination days =
     (let (origin_airport, dest_airport, n) = pick_route g origin destination;
          today = replace_time utcnow 0 0
      in case market_loop g origin_airport dest_airport today [0..<nat days] n of
           Inl e \<Rightarrow> Inl e
         | Inr market_data \<Rightarrow> Inr (sort_key (\<lambda>p. instant (m_date p)) market_data))"

text \<open>The analytics of an airport.\<close>

record destination_stats =
  d_airport :: airport
  d_flight_count :: int
  d_average_price :: real
  d_load_factor :: real

record analytics =
  a_airport :: airport
  a_time_period :: string
  a_total_flights :: int
  a_total_passengers :: int
  a_average_load_factor :: real
  a_on_time_performance :: real
  a_top_destinations :: "destination_stats list"
  a_dates :: "naive_datetime list"
  a_flights :: "real list"
  a_passengers :: "real list"
  a_load_factors :: "real list"
  a_average_fares :: "real list"
  a_data_source :: string

text \<open>\<^verbatim>\<open>[(today - timedelta(days=i)) ... for i in range(days)]\<close>.\<close>

fun past_dates :: "naive_datetime \<Rightarrow> nat list \<Rightarrow> pyexn + naive_datetime list" where
  "past_dates today [] = Inr []"
| "past_dates today (i # rest) =
     (case add_timedelta today (- int i) 0 of
        Inl e \<Rightarrow> Inl e
      | Inr date \<Rightarrow> (case past_dates today rest of Inl e \<Rightarrow> Inl e | Inr dates \<Rightarrow> Inr (date # dates)))"

text \<open>\<^verbatim>\<open>generate_time_series\<close>: one draw for the first value and one for each later day.\<close>

fun extend_series :: "(nat \<Rightarrow> nat) \<Rightarrow> real \<Rightarrow> nat \<Rightarrow> nat \<Rightarrow> real \<Rightarrow> real list" where
  "extend_series g volatility 0 n prev = []"
| "extend_series g volatility (Suc k) n prev =
     (let change = prev * uniform g n (- volatility) volatility;
          x = py_round (prev + change) 2
      in x # extend_series g volatility k (Suc n) x)"

definition generate_time_series :: "(nat \<Rightarrow> nat) \<Rightarrow> nat \<Rightarrow> int \<Rightarrow> real \<Rightarrow> real \<Rightarrow> real list" where
  "generate_time_series g n days base_value volatility =
     (let first = base_value * uniform g n 0.9 1.1
      in first # extend_series g volatility (nat (days - 1)) (Suc n) first)"

fun top_destinations_of :: "(nat \<Rightarrow> nat) \<Rightarrow> nat \<Rightarrow> airport list \<Rightarrow> destination_stats list" where
  "top_destinations_of g n [] = []"
| "top_destinations_of g n (dest # rest) =
     \<lparr>d_airport = dest,
      d_flight_count = randint g n 50 200,
      d_average_price = py_round (uniform g (n + 1) 150 500) 2,
      d_load_factor = py_round (uniform g (n + 2) 60 95) 1\<rparr>
     # top_destinations_of g (n + 3) rest"

text \<open>
  \<^verbatim>\<open>get_airport_analytics\<close>. An unknown code raises \<^verbatim>\<open>ValueError\<close>; the f-string of
  \<^verbatim>\<open>time_period\<close> raises what \<^verbatim>\<open>str(days)\<close> raises.
\<close>

definition get_airport_analytics ::
  "pylib \<Rightarrow> (nat \<Rightarrow> nat) \<Rightarrow> naive_datetime \<Rightarrow> string \<Rightarrow> int \<Rightarrow> pyexn + analytics" where
  "get_airport_analytics lib g utcnow airport_code days =
     (case find (\<lambda>a. ap_iata a = airport_code) AUSTRALIAN_AIRPORTS of
        None \<Rightarrow> Inl ValueError
      | Some airport \<Rightarrow>
          (let other_airports = filter (\<lambda>a. ap_iata a \<noteq> airport_code) AUSTRALIAN_AIRPORTS;
               k = min 5 (length other_airports);
               top_destinations = sample g 0 other_airports k;
               today = replace_time utcnow 0 0;
               len = Suc (nat (days - 1))
           in case past_dates today [0..<nat days] of
                Inl e \<Rightarrow> Inl e
              | Inr dates \<Rightarrow>
                  (case py_str lib (PInt days) of
                     Inl e \<Rightarrow> Inl e
                   | Inr days_str \<Rightarrow>
                       Inr \<lparr>a_airport = airport,
                            a_time_period = ''Last '' @ days_str @ '' days'',
                            a_total_flights = randint g k 1000 5000,
                            a_total_passengers = randint g (k + 1) 100000 500000,
                            a_average_load_factor = py_round (uniform g (k + 2) 70 90) 1,
                            a_on_time_performance = py_round (uniform g (k + 3) 75 95) 1,
                            a_top_destinations = top_destinations_of g (k + 4) top_destinations,
                            a_dates = dates,
                            a_flights = generate_time_series g (k + 4 + 3 * k) days 100 0.15,
                            a_passengers = generate_time_series g (k + 4 + 3 * k + len) days 1000 0.2,
                            a_load_factors = generate_time_series g (k + 4 + 3 * k + 2 * len) days 80 0.1,
                            a_average_fares = generate_time_series g (k + 4 + 3 * k + 3 * len) days 250 0.15,
                            a_data_source = ''mock''\<rparr>)))"

text \<open>What the claim asks of a flight, for the range of days from \<open>lo\<close> to \<open>hi\<close>.\<close>

definition seats_consistent :: "flight \<Rightarrow> bool" where
  "seats_consistent f =
     (int_of_float (of_int (f_capacity f) * 0.5) \<le> f_booked_seats f
      \<and> f_booked_seats f \<le> int_of_float (of_int (f_capacity f) * 0.9)
      \<and> f_available_seats f = f_capacity f - f_booked_seats f
      \<and> 0 \<le> f_available_seats f \<and> f_available_seats f \<le> f_capacity f)"

definition departs_within :: "int \<Rightarrow> int \<Rightarrow> flight \<Rightarrow> bool" where
  "departs_within lo hi f = (lo \<le> toordinal (f_departure_time f) \<and> toordinal (f_departure_time f) \<le> hi)"

definition flight_ok :: "int \<Rightarrow> int \<Rightarrow> flight \<Rightarrow> bool" where
  "flight_ok lo hi f = (seats_consistent f \<and> 100 \<le> f_price f \<and> departs_within lo hi f)"

text \<open>
  The days a call of \<^verbatim>\<open>get_flights\<close> asks for, with the defaults for missing arguments, and
  the condition that the arguments are dates of the calendar with the last day before
  9999-12-31.
\<close>

definition first_day :: "naive_datetime \<Rightarrow> naive_datetime option \<Rightarrow> int" where
  "first_day utcnow date_from = toordinal (case date_from of Some d \<Rightarrow> d | None \<Rightarrow> utcnow)"

definition last_day :: "naive_datetime \<Rightarrow> naive_datetime option \<Rightarrow> int" where
  "last_day utcnow date_to = (case date_to of Some d \<Rightarrow> toordinal d | None \<Rightarrow> toordinal utcnow + 30)"

definition dates_in_calendar ::
  "naive_datetime \<Rightarrow> naive_datetime option \<Rightarrow> naive_datetime option \<Rightarrow> bool" where
  "dates_in_calendar utcnow date_from date_to =
     (valid_datetime utcnow
      \<and> (case date_from of Some d \<Rightarrow> valid_datetime d | None \<Rightarrow> True)
      \<and> (case date_to of Some d \<Rightarrow> valid_datetime d | None \<Rightarrow> True)
      \<and> last_day utcnow date_to < max_ordinal)"

text \<open>Example inputs: a source whose draws are all 0, and 1 December 2023 (a Friday) at noon.\<close>

definition zero_draws :: "nat \<Rightarrow> nat" where
  "zero_draws n = 0"

definition noon_2023_12_01 :: naive_datetime where
  "noon_2023_12_01 = \<lparr>toordinal = 738855, day_microsecond = 43200000000\<rparr>"

definition midnight :: "int \<Rightarrow> naive_datetime" where
  "midnight d = \<lparr>toordinal = d, day_microsecond = 0\<rparr>"

subsection \<open>Properties\<close>

lemma random01_bounds: "0 \<le> random01 g n" "random01 g n < 1"
proof -
  have "int (g n) mod 2 ^ 53 < 2 ^ 53" by simp
  then have "real_of_int (int (g n) mod 2 ^ 53) < real_of_int (2 ^ 53)" by (simp only: of_int_less_iff)
  then show "random01 g n < 1" by (simp add: random01_def)
  have "0 \<le> int (g n) mod 2 ^ 53" by simp
  then have "0 \<le> real_of_int (int (g n) mod 2 ^ 53)" by (simp only: of_int_0_le_iff)
  then show "0 \<le> random01 g n" by (simp add: random01_def)
qed

lemma uniform_bounds:
  assumes "a \<le> b"
  shows "a \<le> uniform g n a b" "uniform g n a b \<le> b"
proof -
  have "0 \<le> (b - a) * random01 g n"
    using assms random01_bounds(1) [of g n] by simp
  then show "a \<le> uniform g n a b" by (simp add: uniform_def)
  have "(b - a) * random01 g n \<le> (b - a) * 1"
    using assms random01_bounds(2) [of g n] by (intro mult_left_mono) simp_all
  then show "uniform g n a b \<le> b" by (simp add: uniform_def)
qed

lemma randint_bounds:
  assumes "a \<le> b"
  shows "a \<le> randint g n a b" "randint g n a b \<le> b"
proof -
  have "0 < nat (b - a + 1)" using assms by simp
  then have "g n mod nat (b - a + 1) < nat (b - a + 1)" by simp
  then have "int (g n mod nat (b - a + 1)) < b - a + 1" using assms by linarith
  then show "randint g n a b \<le> b" by (simp add: randint_def)
  show "a \<le> randint g n a b" by (simp add: randint_def)
qed

lemma choice_mem: "xs \<noteq> [] \<Longrightarrow> choice g n xs \<in> set xs"
  by (simp add: choice_def)

lemma aircraft_capacity:
  "ac \<in> set AIRCRAFT_TYPES \<Longrightarrow> 130 \<le> fst (ac_capacity ac) \<and> fst (ac_capacity ac) \<le> snd (ac_capacity ac)"
  by (auto simp: AIRCRAFT_TYPES_def)

lemma booked_range:
  assumes "0 \<le> c"
  shows "int_of_float (of_int c * 0.5) \<le> int_of_float (of_int c * 0.9)"
    and "int_of_float (of_int c * 0.9) \<le> c"
    and "0 \<le> int_of_float (of_int c * 0.5)"
proof -
  have c: "(0::real) \<le> of_int c" using assms by simp
  then have h: "(0::real) \<le> of_int c * 0.5" and n: "(0::real) \<le> of_int c * 0.9" by simp_all
  have "(of_int c * 0.5 :: real) \<le> of_int c * 0.9" using c by simp
  then show "int_of_float (of_int c * 0.5) \<le> int_of_float (of_int c * 0.9)"
    using h n by (simp add: int_of_float_def floor_mono)
  have "(of_int c * 0.9 :: real) \<le> of_int c" using c by simp
  then have "\<lfloor>of_int c * 0.9 :: real\<rfloor> \<le> \<lfloor>of_int c :: real\<rfloor>" by (rule floor_mono)
  then show "int_of_float (of_int c * 0.9) \<le> c" using n by (simp add: int_of_float_def)
  show "0 \<le> int_of_float (of_int c * 0.5)" using h by (simp add: int_of_float_def)
qed

lemma round_half_even_ge: "\<lfloor>x\<rfloor> \<le> round_half_even x"
  by (simp add: round_half_even_def)

lemma py_round_ge:
  assumes "of_int k \<le> x"
  shows "of_int k \<le> py_round x 2"
proof -
  have "of_int (k * 100) \<le> x * 100" using assms by simp
  then have "k * 100 \<le> \<lfloor>x * 100\<rfloor>" by (simp only: le_floor_iff)
  also have "\<dots> \<le> round_half_even (x * 100)" by (rule round_half_even_ge)
  finally have "(of_int (k * 100) :: real) \<le> of_int (round_half_even (x * 100))"
    by (simp only: of_int_le_iff)
  then show ?thesis by (simp add: py_round_def)
qed

lemma day_div:
  fixes d x :: int
  assumes "0 \<le> x" and "x < 86400000000"
  shows "(d * 86400000000 + x) div 86400000000 = d" and "(d * 86400000000 + x) mod 86400000000 = x"
  using assms by simp_all

lemma two_day_div:
  fixes d y :: int
  assumes "0 \<le> y" and "y < 172800000000"
  shows "d \<le> (d * 86400000000 + y) div 86400000000" and "(d * 86400000000 + y) div 86400000000 \<le> d + 1"
proof -
  have "0 \<le> y div 86400000000" using assms(1) by (simp add: pos_imp_zdiv_nonneg_iff)
  moreover have "y div 86400000000 \<le> 172799999999 div 86400000000"
    using assms(2) by (intro zdiv_mono1) simp_all
  ultimately show "d \<le> (d * 86400000000 + y) div 86400000000"
    and "(d * 86400000000 + y) div 86400000000 \<le> d + 1" by simp_all
qed

lemma add_one_day:
  assumes "0 \<le> day_microsecond d" and "day_microsecond d < 86400000000"
    and "0 \<le> toordinal d" and "toordinal d < max_ordinal"
  shows "add_timedelta d 1 0 = Inr \<lparr>toordinal = toordinal d + 1, day_microsecond = day_microsecond d\<rparr>"
proof -
  have t: "instant d + 1 * 86400000000 + 0 = (toordinal d + 1) * 86400000000 + day_microsecond d"
    by (simp add: instant_def algebra_simps)
  show ?thesis
    unfolding add_timedelta_def Let_def t
    using assms day_div [OF assms(1,2), of "toordinal d + 1"] by simp
qed

lemma instant_le_ordinal:
  assumes "instant a \<le> instant b" and "0 \<le> day_microsecond a" and "day_microsecond b < 86400000000"
  shows "toordinal a \<le> toordinal b"
proof (rule ccontr)
  assume "\<not> toordinal a \<le> toordinal b"
  then have "toordinal b + 1 \<le> toordinal a" by simp
  then have "(toordinal b + 1) * 86400000000 \<le> toordinal a * 86400000000" by (simp only: mult_right_mono)
  with assms show False by (simp add: instant_def algebra_simps)
qed

lemma make_flight_returns:
  assumes "1 \<le> toordinal cur" and "toordinal cur < max_ordinal"
  shows "\<exists>f. make_flight g n origin_airport dest_airport cur = Inr f"
proof -
  define h where "h = randint g n 6 22"
  define m where "m = choice g (n + 1) [0, 15, 30, 45 :: int]"
  define dur where "dur = randint g (n + 2) 1 6 * 60 + randint g (n + 3) 0 59"
  have h: "6 \<le> h" "h \<le> 22" unfolding h_def by (rule randint_bounds, simp)+
  have "m \<in> set [0, 15, 30, 45 :: int]" unfolding m_def by (rule choice_mem) simp
  then have m: "0 \<le> m" "m \<le> 45" by auto
  have "1 \<le> randint g (n + 2) 1 6" "randint g (n + 2) 1 6 \<le> 6"
    "0 \<le> randint g (n + 3) 0 59" "randint g (n + 3) 0 59 \<le> 59"
    by (rule randint_bounds, simp)+
  then have dur: "0 \<le> dur" "dur \<le> 419" unfolding dur_def by simp_all
  define y where "y = (h * 3600 + m * 60) * 1000000 + dur * 60000000"
  have y: "0 \<le> y" "y < 172800000000" unfolding y_def using h m dur by simp_all
  have t: "instant (replace_time cur h m) + 0 * 86400000000 + dur * 60000000
      = toordinal cur * 86400000000 + y"
    by (simp add: instant_def replace_time_def y_def)
  from two_day_div [OF y, of "toordinal cur"] assms
  have "1 \<le> (toordinal cur * 86400000000 + y) div 86400000000"
    and "(toordinal cur * 86400000000 + y) div 86400000000 \<le> max_ordinal" by simp_all
  then have "\<exists>a. add_timedelta (replace_time cur h m) 0 (dur * 60000000) = Inr a"
    unfolding add_timedelta_def Let_def t by simp
  then show ?thesis
    unfolding make_flight_def Let_def h_def [symmetric] m_def [symmetric] dur_def [symmetric]
    by auto
qed

lemma make_flight_consistent:
  assumes "make_flight g n origin_airport dest_airport cur = Inr f"
  shows "seats_consistent f" and "100 \<le> f_price f"
    and "toordinal (f_departure_time f) = toordinal cur"
proof -
  define ac where "ac = choice g (n + 5) AIRCRAFT_TYPES"
  define c where "c = randint g (n + 6) (fst (ac_capacity ac)) (snd (ac_capacity ac))"
  define b where "b = randint g (n + 7) (int_of_float (of_int c * 0.5)) (int_of_float (of_int c * 0.9))"
  define p where "p = uniform g (n + 8) 100 300 + uniform g (n + 9) 500 4000 * 0.1 + uniform g (n + 10) (-50) 100"
  have "ac \<in> set AIRCRAFT_TYPES" unfolding ac_def by (rule choice_mem) (simp add: AIRCRAFT_TYPES_def)
  then have cap: "130 \<le> fst (ac_capacity ac)" "fst (ac_capacity ac) \<le> snd (ac_capacity ac)"
    using aircraft_capacity by blast+
  have c: "130 \<le> c" using randint_bounds(1) [OF cap(2), of g "n + 6"] cap(1) by (simp add: c_def)
  then have c0: "0 \<le> c" by simp
  have b: "int_of_float (of_int c * 0.5) \<le> b" "b \<le> int_of_float (of_int c * 0.9)"
    unfolding b_def by (rule randint_bounds, rule booked_range(1) [OF c0])+
  have bc: "b \<le> c" "0 \<le> b" using b booked_range(2,3) [OF c0] by simp_all
  have "100 \<le> uniform g (n + 8) 100 300" "500 \<le> uniform g (n + 9) 500 4000" "-50 \<le> uniform g (n + 10) (-50) 100"
    by (rule uniform_bounds, simp)+
  then have "of_int 100 \<le> p" unfolding p_def by simp
  then have p: "100 \<le> py_round p 2" using py_round_ge [of 100 p] by simp
  from assms have f: "f_capacity f = c" "f_booked_seats f = b" "f_available_seats f = c - b"
    "f_price f = py_round p 2"
    "f_departure_time f = replace_time cur (randint g n 6 22) (choice g (n + 1) [0, 15, 30, 45])"
    by (auto simp: make_flight_def Let_def ac_def c_def b_def p_def split: sum.splits)
  show "seats_consistent f" using b bc by (simp add: seats_consistent_def f)
  show "100 \<le> f_price f" using p by (simp add: f)
  show "toordinal (f_departure_time f) = toordinal cur" by (simp add: f replace_time_def)
qed

lemma day_flights_ok:
  assumes "1 \<le> toordinal cur" and "toordinal cur < max_ordinal"
    and "lo \<le> toordinal cur" and "toordinal cur \<le> hi"
  shows "\<forall>f\<in>set flights. flight_ok lo hi f \<Longrightarrow>
         \<exists>fs n'. day_flights g origin_airport dest_airport cur limit k n flights = Inr (fs, n')
                  \<and> (\<forall>f\<in>set fs. flight_ok lo hi f)"
proof (induction k arbitrary: n flights)
  case 0
  then show ?case by simp
next
  case (Suc k)
  show ?case
  proof (cases "limit \<le> int (length flights)")
    case True
    with Suc.prems show ?thesis by simp
  next
    case False
    from make_flight_returns [OF assms(1,2)] obtain f
      where f: "make_flight g n origin_airport dest_airport cur = Inr f" by blast
    from make_flight_consistent [OF f] assms(3,4) have "flight_ok lo hi f"
      by (simp add: flight_ok_def departs_within_def)
    with Suc.prems have "\<forall>f\<in>set (flights @ [f]). flight_ok lo hi f" by simp
    from Suc.IH [OF this, of "n + 15"] show ?thesis using False f by simp
  qed
qed

declare flights_loop.simps [simp del]

lemma flights_loop_ok:
  assumes "day_microsecond date_to < 86400000000" and "toordinal date_to < max_ordinal"
  shows "1 \<le> toordinal cur \<Longrightarrow> lo \<le> toordinal cur \<Longrightarrow> 0 \<le> day_microsecond cur
         \<Longrightarrow> day_microsecond cur < 86400000000
         \<Longrightarrow> \<forall>f\<in>set flights. flight_ok lo (toordinal date_to) f
         \<Longrightarrow> \<exists>fs. flights_loop g origin_airport dest_airport date_to limit cur n flights = Inr fs
                  \<and> (\<forall>f\<in>set fs. flight_ok lo (toordinal date_to) f)"
  using assms
proof (induction g origin_airport dest_airport date_to limit cur n flights rule: flights_loop.induct)
  case (1 g origin_airport dest_airport date_to limit cur n flights)
  show ?case
  proof (cases "instant cur \<le> instant date_to \<and> int (length flights) < limit")
    case False
    have "flights_loop g origin_airport dest_airport date_to limit cur n flights = Inr flights"
      by (subst flights_loop.simps) (simp only: False if_False)
    with "1.prems"(5) show ?thesis by simp
  next
    case True
    then have ord: "toordinal cur \<le> toordinal date_to"
      using instant_le_ordinal "1.prems"(3,6) by blast
    with "1.prems"(7) have lt: "toordinal cur < max_ordinal" by simp
    from day_flights_ok [OF "1.prems"(1) lt "1.prems"(2) ord "1.prems"(5)]
    obtain fs n' where df: "day_flights g origin_airport dest_airport cur limit
         (nat (randint g n 1 5)) (Suc n) flights = Inr (fs, n')"
      and fs: "\<forall>f\<in>set fs. flight_ok lo (toordinal date_to) f" by blast
    define nxt where "nxt = \<lparr>toordinal = toordinal cur + 1, day_microsecond = day_microsecond cur\<rparr>"
    have nx: "add_timedelta cur 1 0 = Inr nxt"
      unfolding nxt_def using "1.prems"(1,3,4) lt by (intro add_one_day) simp_all
    have "\<exists>fs'. flights_loop g origin_airport dest_airport date_to limit nxt n' fs = Inr fs'
                \<and> (\<forall>f\<in>set fs'. flight_ok lo (toordinal date_to) f)"
      using "1.prems" fs by (intro "1.IH" [OF True df refl nx]) (simp_all add: nxt_def)
    then show ?thesis by (subst flights_loop.simps) (simp add: True df nx)
  qed
qed

lemma market_loop_points:
  "market_loop g origin_airport dest_airport today ds n = Inr points \<Longrightarrow> p \<in> set points
   \<Longrightarrow> \<exists>k date. p = market_point_of g k origin_airport dest_airport date"
proof (induction ds arbitrary: n points)
  case Nil
  then show ?case by simp
next
  case (Cons day rest)
  from Cons.prems(1) obtain date ps
    where ps: "market_loop g origin_airport dest_airport today rest (n + 7) = Inr ps"
      and points: "points = market_point_of g n origin_airport dest_airport date # ps"
    by (auto split: sum.splits)
  show ?case
  proof (cases "p \<in> set ps")
    case True
    with Cons.IH [OF ps] show ?thesis by blast
  next
    case False
    with Cons.prems(2) points have "p = market_point_of g n origin_airport dest_airport date" by simp
    then show ?thesis by blast
  qed
qed

lemma market_point_conversion_rate:
  "m_conversion_rate (market_point_of g k origin_airport dest_airport date)
     = (if 0 < m_search_volume (market_point_of g k origin_airport dest_airport date)
        then py_round (of_int (m_booking_count (market_point_of g k origin_airport dest_airport date))
                       / of_int (m_search_volume (market_point_of g k origin_airport dest_airport date)) * 100) 2
        else 0)"
  by (simp add: market_point_of_def Let_def)

text \<open>
  Claim C6. In every point that \<^verbatim>\<open>get_market_data\<close> returns, \<^verbatim>\<open>conversion_rate\<close> is
  \<^verbatim>\<open>round(booking_count / search_volume * 100, 2)\<close> when \<^verbatim>\<open>search_volume\<close> is positive and
  0 otherwise: the share of bookings as a percentage, rounded to two decimals, and not the
  plain quotient.
\<close>

theorem conversion_rate_is_percentage:
  assumes "get_market_data g utcnow origin destination days = Inr market_data"
    and "p \<in> set market_data"
  shows "m_conversion_rate p
     = (if 0 < m_search_volume p
        then py_round (of_int (m_booking_count p) / of_int (m_search_volume p) * 100) 2
        else 0)"
proof -
  obtain origin_airport dest_airport n
    where r: "pick_route g origin destination = (origin_airport, dest_airport, n)"
    by (cases "pick_route g origin destination")
  from assms(1) r obtain points
    where loop: "market_loop g origin_airport dest_airport (replace_time utcnow 0 0) [0..<nat days] n = Inr points"
      and sorted: "market_data = sort_key (\<lambda>p. instant (m_date p)) points"
    by (auto simp: get_market_data_def Let_def split: sum.splits)
  from assms(2) sorted have "p \<in> set points" by simp
  from market_loop_points [OF loop this] obtain k date
    where "p = market_point_of g k origin_airport dest_airport date" by blast
  then show ?thesis by (simp only: market_point_conversion_rate)
qed

lemma market_data_example:
  "get_market_data zero_draws noon_2023_12_01 (Some ''SYD'') (Some ''MEL'') 1
     = Inr [\<lparr>m_date = \<lparr>toordinal = 738855, day_microsecond = 0\<rparr>,
         m_origin = ''SYD'', m_destination = ''MEL'', m_search_volume = 40,
         m_booking_count = 4, m_conversion_rate = 10, m_average_price = 150,
         m_min_price = 105, m_max_price = 315 / 2, m_load_factor = 60,
         m_data_source = ''mock''\<rparr>]"
  by code_simp

text \<open>Witness for C6: one day, all draws 0; 4 bookings in 40 searches give the rate 10.\<close>

theorem conversion_rate_is_percentage_witness:
  "\<exists>p. get_market_data zero_draws noon_2023_12_01 (Some ''SYD'') (Some ''MEL'') 1 = Inr [p]
       \<and> m_search_volume p = 40 \<and> m_booking_count p = 4
       \<and> m_conversion_rate p = py_round (4 / 40 * 100) 2"
  using conversion_rate_is_percentage [OF market_data_example, of
      "\<lparr>m_date = \<lparr>toordinal = 738855, day_microsecond = 0\<rparr>,
         m_origin = ''SYD'', m_destination = ''MEL'', m_search_volume = 40,
         m_booking_count = 4, m_conversion_rate = 10, m_average_price = 150,
         m_min_price = 105, m_max_price = 315 / 2, m_load_factor = 60,
         m_data_source = ''mock''\<rparr>"]
  by (simp add: market_data_example)

text \<open>
  Counterexample to C6 as stated: the same point has 40 searches, 4 bookings and the rate
  10, where the quotient \<^verbatim>\<open>booking_count / search_volume\<close> is one tenth.
\<close>

theorem conversion_rate_not_ratio:
  "map (\<lambda>p. (m_search_volume p, m_booking_count p, m_conversion_rate p))
       (case get_market_data zero_draws noon_2023_12_01 (Some ''SYD'') (Some ''MEL'') 1 of
          Inr market_data \<Rightarrow> market_data | Inl e \<Rightarrow> [])
     = [(40, 4, 10)]"
  by (simp add: market_data_example)

text \<open>
  Counterexample to C5 as stated: \<^verbatim>\<open>get_airport_analytics\<close> raises \<^verbatim>\<open>ValueError\<close> for a
  code that is not among the ten airports.
\<close>

theorem get_airport_analytics_unknown_airport:
  "get_airport_analytics example_lib zero_draws noon_2023_12_01 ''XYZ'' 30 = Inl ValueError"
  by (simp add: get_airport_analytics_def AUSTRALIAN_AIRPORTS_def)

lemma default_date_to:
  assumes "valid_datetime utcnow" and "toordinal utcnow + 30 < max_ordinal"
  shows "add_timedelta (replace_time utcnow 0 0) 30 0
     = Inr \<lparr>toordinal = toordinal utcnow + 30, day_microsecond = 0\<rparr>"
proof -
  have t: "instant (replace_time utcnow 0 0) + 30 * 86400000000 + 0
      = (toordinal utcnow + 30) * 86400000000 + 0"
    by (simp add: instant_def replace_time_def algebra_simps)
  show ?thesis
    unfolding add_timedelta_def Let_def t
    using assms day_div [of 0 "toordinal utcnow + 30"] by (simp add: valid_datetime_def)
qed

text \<open>
  Claim C5, for \<^verbatim>\<open>get_flights\<close>. When the date arguments are dates of the calendar and the
  last day asked for is before 9999-12-31, \<^verbatim>\<open>get_flights\<close> returns, and in every flight the
  booked seats lie between \<^verbatim>\<open>int(capacity * 0.5)\<close> and \<^verbatim>\<open>int(capacity * 0.9)\<close>, the available
  seats are the capacity less the booked seats and lie between 0 and the capacity, the
  price is at least 100, and the day of departure is one of the days asked for.
\<close>

theorem get_flights_consistent:
  assumes "dates_in_calendar utcnow date_from date_to"
  shows "\<exists>flights. get_flights g utcnow origin destination date_from date_to limit = Inr flights
           \<and> (\<forall>f\<in>set flights. flight_ok (first_day utcnow date_from) (last_day utcnow date_to) f)"
proof -
  define today where "today = replace_time utcnow 0 0"
  define start where "start = (case date_from of Some d \<Rightarrow> d | None \<Rightarrow> today)"
  obtain origin_airport dest_airport n
    where r: "pick_route g origin destination = (origin_airport, dest_airport, n)"
    by (cases "pick_route g origin destination")
  from assms have now: "valid_datetime utcnow" and last: "last_day utcnow date_to < max_ordinal"
    by (simp_all add: dates_in_calendar_def)
  have start: "1 \<le> toordinal start" "0 \<le> day_microsecond start" "day_microsecond start < 86400000000"
    and first: "toordinal start = first_day utcnow date_from"
    using assms
    by (auto simp: start_def today_def dates_in_calendar_def valid_datetime_def replace_time_def first_day_def
        split: option.splits)
  obtain stop where stop: "(case date_to of Some d \<Rightarrow> Inr d | None \<Rightarrow> add_timedelta today 30 0) = Inr stop"
    and stop_day: "toordinal stop = last_day utcnow date_to"
    and stop_us: "day_microsecond stop < 86400000000"
  proof (cases date_to)
    case None
    with last have "toordinal utcnow + 30 < max_ordinal" by (simp add: last_day_def)
    from default_date_to [OF now this] None that show ?thesis
      by (simp add: today_def last_day_def)
  next
    case (Some d)
    with assms that show ?thesis
      by (simp add: dates_in_calendar_def valid_datetime_def last_day_def)
  qed
  from last stop_day have lt: "toordinal stop < max_ordinal" by simp
  from flights_loop_ok [OF stop_us lt start(1) order_refl start(2,3), of "[]" g origin_airport dest_airport limit n]
  obtain fs where "flights_loop g origin_airport dest_airport stop limit start n [] = Inr fs"
    and "\<forall>f\<in>set fs. flight_ok (toordinal start) (toordinal stop) f" by auto
  then show ?thesis
    using stop r by (simp add: get_flights_def Let_def today_def [symmetric] start_def [symmetric] first stop_day)
qed

lemma flights_example:
  "map (\<lambda>f. (f_capacity f, f_booked_seats f, f_available_seats f, f_price f, toordinal (f_departure_time f)))
       (case get_flights zero_draws noon_2023_12_01 (Some ''SYD'') (Some ''MEL'')
               (Some (midnight 738855)) (Some (midnight 738856)) 10 of
          Inr flights \<Rightarrow> flights | Inl e \<Rightarrow> [])
     = [(150, 75, 75, 100, 738855), (150, 75, 75, 100, 738856)]"
  by code_simp

text \<open>Witness for C5: two days from 1 December 2023 with all draws 0 give one flight a day.\<close>

theorem get_flights_consistent_witness:
  "dates_in_calendar noon_2023_12_01 (Some (midnight 738855)) (Some (midnight 738856))
   \<and> (\<exists>flights. get_flights zero_draws noon_2023_12_01 (Some ''SYD'') (Some ''MEL'')
                   (Some (midnight 738855)) (Some (midnight 738856)) 10 = Inr flights
          \<and> map (\<lambda>f. (f_capacity f, f_booked_seats f, f_available_seats f, f_price f,
                       toordinal (f_departure_time f))) flights
              = [(150, 75, 75, 100, 738855), (150, 75, 75, 100, 738856)]
          \<and> (\<forall>f\<in>set flights. flight_ok 738855 738856 f))"
proof -
  have c: "dates_in_calendar noon_2023_12_01 (Some (midnight 738855)) (Some (midnight 738856))"
    by (simp add: dates_in_calendar_def valid_datetime_def noon_2023_12_01_def midnight_def
        last_day_def max_ordinal_def)
  from get_flights_consistent [OF c, of zero_draws "Some ''SYD''" "Some ''MEL''" 10]
  obtain flights where f: "get_flights zero_draws noon_2023_12_01 (Some ''SYD'') (Some ''MEL'')
                   (Some (midnight 738855)) (Some (midnight 738856)) 10 = Inr flights"
    and ok: "\<forall>f\<in>set flights. flight_ok 738855 738856 f"
    by (auto simp: first_day_def last_day_def midnight_def)
  from flights_example f have "map (\<lambda>f. (f_capacity f, f_booked_seats f, f_available_seats f, f_price f,
                       toordinal (f_departure_time f))) flights
              = [(150, 75, 75, 100, 738855), (150, 75, 75, 100, 738856)]" by simp
  with c f ok show ?thesis by simp
qed

end
